theory Spec2Isabelle
  imports Main
begin

section \<open>Values of the platform\<close>

text \<open>
  The scripts are Node.js programs. What they compute themselves is modelled below;
  what the platform computes for them (the JSON parser, the URL parser, form and URI
  encoding, the formatting of non-string values) is a parameter, the record
  \<open>platform\<close>. A string is the list of the bytes of its UTF-8 encoding.
\<close>

datatype json =
    JNull
  | JBool bool
  | JNum int
  | JStr string
  | JArr "json list"
  | JObj "(string \<times> json) list"

text \<open>
  A property read \<open>v.key\<close> on a parsed JSON value that is not \<open>null\<close>: the member of
  an object, \<open>undefined\<close> (here \<open>None\<close>) otherwise. On \<open>null\<close> the read throws a
  TypeError; every place that reads a property tests for \<open>JNull\<close> first.
  \<open>JSON.parse\<close> yields objects without duplicate keys.
\<close>

fun get :: "json \<Rightarrow> string \<Rightarrow> json option" where
  "get (JObj kvs) key = map_of kvs key"
| "get _ key = None"

text \<open>JavaScript truthiness of a value that may be \<open>undefined\<close>.\<close>

fun truthy :: "json option \<Rightarrow> bool" where
  "truthy None = False"
| "truthy (Some JNull) = False"
| "truthy (Some (JBool b)) = b"
| "truthy (Some (JNum n)) = (n \<noteq> 0)"
| "truthy (Some (JStr s)) = (s \<noteq> [])"
| "truthy (Some (JArr xs)) = True"
| "truthy (Some (JObj kvs)) = True"

record platform =
  JSON_parse :: "string \<Rightarrow> json option"
    \<comment> \<open>\<open>JSON.parse\<close>; \<open>None\<close>: it throws a SyntaxError\<close>
  String_of :: "json \<Rightarrow> string"
    \<comment> \<open>the string a template literal makes of a value that is not a string\<close>
  inspect :: "json \<Rightarrow> string"
    \<comment> \<open>what \<open>console.log\<close> prints for a value that is neither a string nor undefined\<close>
  URLSearchParams_toString :: "(string \<times> string) list \<Rightarrow> string"
  encodeURIComponent :: "string \<Rightarrow> string"
  URL_href :: "string option \<Rightarrow> string option"
    \<comment> \<open>\<open>new URL(x).href\<close>; \<open>None\<close>: the constructor throws a TypeError\<close>
  URL_protocol :: "string \<Rightarrow> string option"
    \<comment> \<open>the protocol \<open>https.get\<close> reads from a URL string; \<open>None\<close>: it refuses the string\<close>
  basename :: "string \<Rightarrow> string"

definition template :: "platform \<Rightarrow> json \<Rightarrow> string" where
  "template P v = (case v of JStr s \<Rightarrow> s | _ \<Rightarrow> String_of P v)"

definition console_log :: "platform \<Rightarrow> json option \<Rightarrow> string" where
  "console_log P v =
     (case v of None \<Rightarrow> ''undefined'' | Some (JStr s) \<Rightarrow> s | Some x \<Rightarrow> inspect P x)"

subsection \<open>String functions of the scripts\<close>

text \<open>
  The characters that \<open>trim\<close> removes, in UTF-8: the white space of the language
  (TAB, VT, FF, SP, U+00A0, U+1680, U+2000 to U+200A, U+202F, U+205F, U+3000, U+FEFF)
  and its line terminators (LF, CR, U+2028, U+2029).
\<close>

definition white_space :: "string list" where
  "white_space =
     [[CHR 0x09], [CHR 0x0A], [CHR 0x0B], [CHR 0x0C], [CHR 0x0D], [CHR 0x20],
      [CHR 0xC2, CHR 0xA0],
      [CHR 0xE1, CHR 0x9A, CHR 0x80],
      [CHR 0xE2, CHR 0x80, CHR 0x80], [CHR 0xE2, CHR 0x80, CHR 0x81],
      [CHR 0xE2, CHR 0x80, CHR 0x82], [CHR 0xE2, CHR 0x80, CHR 0x83],
      [CHR 0xE2, CHR 0x80, CHR 0x84], [CHR 0xE2, CHR 0x80, CHR 0x85],
      [CHR 0xE2, CHR 0x80, CHR 0x86], [CHR 0xE2, CHR 0x80, CHR 0x87],
      [CHR 0xE2, CHR 0x80, CHR 0x88], [CHR 0xE2, CHR 0x80, CHR 0x89],
      [CHR 0xE2, CHR 0x80, CHR 0x8A],
      [CHR 0xE2, CHR 0x80, CHR 0xA8], [CHR 0xE2, CHR 0x80, CHR 0xA9],
      [CHR 0xE2, CHR 0x80, CHR 0xAF],
      [CHR 0xE2, CHR 0x81, CHR 0x9F],
      [CHR 0xE3, CHR 0x80, CHR 0x80],
      [CHR 0xEF, CHR 0xBB, CHR 0xBF]]"

text \<open>The number of bytes of the character of \<open>wss\<close> that \<open>s\<close> starts with, or 0.\<close>

definition space_len :: "string list \<Rightarrow> string \<Rightarrow> nat" where
  "space_len wss s =
     (case find (\<lambda>ws. take (length ws) s = ws) wss of None \<Rightarrow> 0 | Some ws \<Rightarrow> length ws)"

function strip :: "string list \<Rightarrow> string \<Rightarrow> string" where
  "strip wss s = (if space_len wss s = 0 then s else strip wss (drop (space_len wss s) s))"
  by pat_completeness auto
termination
proof (relation "measure (\<lambda>(wss, s). length s)")
  show "wf (measure (\<lambda>(wss :: string list, s :: string). length s))" by simp
next
  fix wss :: "string list" and s :: string
  assume n: "space_len wss s \<noteq> 0"
  have "s \<noteq> []"
  proof
    assume "s = []"
    then have "space_len wss s = 0"
      by (auto simp add: space_len_def find_Some_iff split: option.splits)
    with n show False by simp
  qed
  with n show "((wss, drop (space_len wss s) s), (wss, s)) \<in> measure (\<lambda>(wss, s). length s)"
    by simp
qed

declare strip.simps [simp del]

text \<open>
  \<open>s.trim()\<close>: the white space at the front goes, then that at the end, read on the
  reversed bytes.
\<close>

definition trim :: "string \<Rightarrow> string" where
  "trim s = rev (strip (map rev white_space) (rev (strip white_space s)))"

text \<open>\<open>s.split('\n')\<close>: never empty, the last piece is what follows the last newline.\<close>

fun split_lines :: "string \<Rightarrow> string list" where
  "split_lines [] = [[]]"
| "split_lines (c # cs) =
     (if c = CHR 0x0A then [] # split_lines cs
      else (case split_lines cs of l # ls \<Rightarrow> (c # l) # ls | [] \<Rightarrow> [[c]]))"

text \<open>
  The characters the dot of a regular expression does not match: the line terminators
  LF, CR, U+2028 and U+2029 (the last two are three bytes each in UTF-8).
\<close>

fun has_line_terminator :: "string \<Rightarrow> bool" where
  "has_line_terminator [] = False"
| "has_line_terminator (c # cs) =
     (c = CHR 0x0A \<or> c = CHR 0x0D
      \<or> (c = CHR 0xE2 \<and> (take 2 cs = [CHR 0x80, CHR 0xA8] \<or> take 2 cs = [CHR 0x80, CHR 0xA9]))
      \<or> has_line_terminator cs)"

text \<open>
  \<open>line.match(/^([^=]+)=(.*)$/)\<close>: the first group is the text before the first
  \<open>=\<close> and is not empty, the second is the rest of the line, which holds no line
  terminator.
\<close>

definition match_line :: "string \<Rightarrow> (string \<times> string) option" where
  "match_line line =
     (let k = takeWhile (\<lambda>c. c \<noteq> CHR ''='') line;
          r = dropWhile (\<lambda>c. c \<noteq> CHR ''='') line
      in if k = [] \<or> r = [] \<or> has_line_terminator (tl r) then None
         else Some (k, tl r))"

definition is_quote :: "char \<Rightarrow> bool" where
  "is_quote c = (c = CHR 0x27 \<or> c = CHR 0x22)"

text \<open>\<open>s.replace(/^['"]|['"]$/g, '')\<close>: one quote off the front, then one off the end.\<close>

definition strip_quotes :: "string \<Rightarrow> string" where
  "strip_quotes s =
     (let s1 = (if s \<noteq> [] \<and> is_quote (hd s) then tl s else s)
      in if s1 \<noteq> [] \<and> is_quote (last s1) then butlast s1 else s1)"

text \<open>The \<open>forEach\<close> over the lines of the credential file; a later line overrides.\<close>

fun parse_env_lines :: "string list \<Rightarrow> (string \<rightharpoonup> string) \<Rightarrow> (string \<rightharpoonup> string)" where
  "parse_env_lines [] credentials = credentials"
| "parse_env_lines (line # ls) credentials =
     (case match_line line of
        None \<Rightarrow> parse_env_lines ls credentials
      | Some (k, v) \<Rightarrow> parse_env_lines ls (credentials(trim k \<mapsto> strip_quotes (trim v))))"

definition parse_env :: "string \<Rightarrow> (string \<rightharpoonup> string)" where
  "parse_env envContent = parse_env_lines (split_lines envContent) Map.empty"

text \<open>\<open>a || b\<close> on two credential values: the empty string is falsy, as \<open>undefined\<close> is.\<close>

definition or_else :: "string option \<Rightarrow> string option \<Rightarrow> string option" where
  "or_else a b = (case a of Some (c # cs) \<Rightarrow> a | _ \<Rightarrow> b)"

definition falsy :: "string option \<Rightarrow> bool" where
  "falsy a = (case a of Some (c # cs) \<Rightarrow> False | _ \<Rightarrow> True)"

text \<open>\<open>s.replace(pat, rep)\<close> with a string pattern: the first occurrence only.\<close>

fun replace_first :: "string \<Rightarrow> string \<Rightarrow> string \<Rightarrow> string" where
  "replace_first pat rep [] = (if pat = [] then rep else [])"
| "replace_first pat rep (c # cs) =
     (if take (length pat) (c # cs) = pat then rep @ drop (length pat) (c # cs)
      else c # replace_first pat rep cs)"

section \<open>The world a script runs in, and what a run leaves behind\<close>

text \<open>
  A script runs in a world: the files that exist, with their content, and the answer
  of the network to each call. The transport either delivers a response, with its
  whole body, or raises the error event of the request; writing a file succeeds. A
  request made from an options record is taken to be sent; \<open>https.get\<close> on a URL
  string sends it only when the protocol of the URL is \<open>https:\<close>, and throws
  otherwise. A run leaves the list of its events, in order, and ends with an error or
  with a value.
\<close>

datatype hval = HStr string | HNum nat

record options =
  hostname :: string
  port :: nat
  path :: string
  method_name :: string
  headers :: "(string \<times> hval) list"

text \<open>
  A network call: \<open>https.request(options, ...)\<close> with the body written to it, or
  \<open>https.get(url, ...)\<close>, which sends no header of the script's.
\<close>

datatype call = HttpsRequest options string | HttpsGet string

record response =
  statusCode :: nat
  location :: "string option"
  body :: string

datatype net_result = Response response | NetError string

record world =
  envPath :: string
    \<comment> \<open>\<open>path.join(process.env.HOME, '.config/bobby/sharepoint.env')\<close>\<close>
  files :: "string \<rightharpoonup> string"
  net :: "call \<Rightarrow> net_result"

datatype event =
    Request call
  | CreateWriteStream string
  | Pipe string string
  | Unlink string

text \<open>
  Every failure of the scripts ends the process with a non-zero exit code after a
  message on standard error; the error value carries what the message prints. The
  names are those of the specification where it has one; \<open>SiteNotFound\<close> and
  \<open>DriveNotFound\<close> are its ResourceNotFound.
\<close>

datatype error =
    Usage
    \<comment> \<open>too few arguments: \<open>Usage: node ...\<close>\<close>
  | ConfigMissing
    \<comment> \<open>\<open>ERROR: SharePoint credentials not found\<close>\<close>
  | ConfigIncomplete string
    \<comment> \<open>\<open>ERROR: Missing ...\<close>, \<open>ERROR: No tenant configured\<close>; which fields\<close>
  | TransportError string
    \<comment> \<open>the error event of a request, with its message\<close>
  | AuthRejected nat string
    \<comment> \<open>\<open>ERROR: Token request failed\<close>, the status code, the body\<close>
  | Uncaught string
    \<comment> \<open>an exception that nothing catches\<close>
  | Failed_to_get_access_token error
    \<comment> \<open>\<open>ERROR: Failed to get access token\<close>, with the failure of the child\<close>
  | Failed_to_get_tenant error
    \<comment> \<open>\<open>ERROR: Failed to get tenant\<close>, with the failure of the child\<close>
  | InvalidJSON string
    \<comment> \<open>\<open>ERROR: Invalid JSON response\<close>, the body\<close>
  | SiteNotFound json
    \<comment> \<open>\<open>ERROR: Site not found\<close>, the answer\<close>
  | DriveNotFound json
    \<comment> \<open>\<open>ERROR: Drive not found\<close>, the answer\<close>
  | UnexpectedResponse json
    \<comment> \<open>\<open>ERROR: Unexpected response\<close>, the answer\<close>
  | DownloadFailed nat string
    \<comment> \<open>\<open>ERROR: Download failed\<close>, the status code, the body\<close>
  | UploadFailed nat string
    \<comment> \<open>\<open>ERROR: Upload failed\<close>, the status code, the body\<close>
  | LocalFileNotFound string
    \<comment> \<open>\<open>ERROR: Local file not found\<close>\<close>
  | NotImplemented
    \<comment> \<open>\<open>Large file upload (>4MB) not yet implemented\<close>\<close>

type_synonym 'a run = "event list \<times> (error + 'a)"

definition emit :: "event \<Rightarrow> 'a run \<Rightarrow> 'a run" where
  "emit e r = (e # fst r, snd r)"

definition exit1 :: "error \<Rightarrow> 'a run" where
  "exit1 e = ([], Inl e)"

definition finish :: "'a \<Rightarrow> 'a run" where
  "finish x = ([], Inr x)"

definition calls :: "event list \<Rightarrow> call list" where
  "calls evs = concat (map (\<lambda>e. case e of Request c \<Rightarrow> [c] | _ \<Rightarrow> []) evs)"

section \<open>sharepoint-auth.js\<close>

record credential_record =
  TENANT :: string
  CLIENT_ID :: string
  CLIENT_SECRET :: string

text \<open>Lines 18 to 51: the credential file is read and the three fields are checked.\<close>

definition load_credentials :: "world \<Rightarrow> error + credential_record" where
  "load_credentials w =
     (case files w (envPath w) of
        None \<Rightarrow> Inl ConfigMissing
      | Some envContent \<Rightarrow>
          (let credentials = parse_env envContent;
               tenant = or_else (credentials ''TEAMS_TENANT_ID'') (credentials ''TENANT'');
               client_id = or_else (credentials ''TEAMS_CLIENT_ID'') (credentials ''CLIENT_ID'');
               client_secret =
                 or_else (credentials ''TEAMS_CLIENT_SECRET'') (credentials ''CLIENT_SECRET'')
           in if falsy tenant then Inl (ConfigIncomplete ''TENANT'')
              else if falsy client_id \<or> falsy client_secret then Inl (ConfigIncomplete ''CLIENT'')
              else Inr \<lparr>TENANT = the tenant, CLIENT_ID = the client_id,
                        CLIENT_SECRET = the client_secret\<rparr>))"

text \<open>Lines 53 to 73: the token request.\<close>

definition token_call :: "platform \<Rightarrow> credential_record \<Rightarrow> call" where
  "token_call P c =
     (let postData = URLSearchParams_toString P
            [(''grant_type'', ''client_credentials''),
             (''client_id'', CLIENT_ID c),
             (''client_secret'', CLIENT_SECRET c),
             (''scope'', ''https://graph.microsoft.com/.default'')]
      in HttpsRequest
           \<lparr>hostname = ''login.microsoftonline.com'', port = 443,
            path = ''/'' @ TENANT c @ ''/oauth2/v2.0/token'', method_name = ''POST'',
            headers = [(''Content-Type'', HStr ''application/x-www-form-urlencoded''),
                       (''Content-Length'', HNum (length postData))]\<rparr>
           postData)"

text \<open>
  Lines 75 to 98: the response handler. The value of a successful run is the value
  handed to \<open>console.log\<close>; the process then ends with exit code 0. \<open>JSON.parse\<close>
  is not guarded here, so a body that does not parse, or parses to \<open>null\<close>, ends the
  process with an uncaught exception.
\<close>

definition token_response :: "platform \<Rightarrow> net_result \<Rightarrow> error + json option" where
  "token_response P r =
     (case r of
        NetError e \<Rightarrow> Inl (TransportError e)
      | Response res \<Rightarrow>
          if statusCode res = 200 then
            (case JSON_parse P (body res) of
               None \<Rightarrow> Inl (Uncaught ''SyntaxError'')
             | Some JNull \<Rightarrow> Inl (Uncaught ''TypeError'')
             | Some token \<Rightarrow> Inr (get token ''access_token''))
          else Inl (AuthRejected (statusCode res) (body res)))"

definition acquire :: "platform \<Rightarrow> world \<Rightarrow> credential_record \<Rightarrow> (json option) run" where
  "acquire P w c =
     emit (Request (token_call P c)) ([], token_response P (net w (token_call P c)))"

definition sharepoint_auth :: "platform \<Rightarrow> world \<Rightarrow> (json option) run" where
  "sharepoint_auth P w =
     (case load_credentials w of Inl e \<Rightarrow> exit1 e | Inr c \<Rightarrow> acquire P w c)"

section \<open>get-tenant.js\<close>

definition get_tenant :: "world \<Rightarrow> string run" where
  "get_tenant w =
     (case files w (envPath w) of
        None \<Rightarrow> exit1 ConfigMissing
      | Some envContent \<Rightarrow>
          (let credentials = parse_env envContent;
               tenantId = or_else (or_else (credentials ''TEAMS_TENANT_ID'') (credentials ''TENANT''))
                            (credentials ''SHAREPOINT_TENANT'')
           in if falsy tenantId then exit1 (ConfigIncomplete ''TENANT'')
              else finish (replace_first ''.onmicrosoft.com'' [] (the tenantId))))"

section \<open>What the three file scripts share\<close>

text \<open>
  Each of the three file scripts has its own copy of \<open>makeRequest\<close>,
  \<open>getSiteId\<close> and \<open>getDriveId\<close>, and of the lines that get the token and the
  tenant; the copies are the same text and are modelled once. A callback gives the
  rest of the run, or \<open>None\<close> when it throws before it returns.
\<close>

text \<open>
  \<open>execSync\<close> of a child script inside \<open>try\<close>: the child's network calls happen,
  a child that ends with a non-zero exit code makes \<open>execSync\<close> throw, and the
  \<open>catch\<close> ends the parent. Otherwise the parent goes on with the child's standard
  output, trimmed; \<open>console.log\<close> has put a newline after it.
\<close>

definition stdout_trimmed :: "string \<Rightarrow> string" where
  "stdout_trimmed out = trim (out @ [CHR 0x0A])"

definition execSync :: "string run \<Rightarrow> (error \<Rightarrow> error) \<Rightarrow> (string \<Rightarrow> 'a run) \<Rightarrow> 'a run" where
  "execSync child wrap k =
     (case snd child of
        Inl e \<Rightarrow> (fst child, Inl (wrap e))
      | Inr out \<Rightarrow> (let r = k (stdout_trimmed out) in (fst child @ fst r, snd r)))"

definition auth_stdout :: "platform \<Rightarrow> world \<Rightarrow> string run" where
  "auth_stdout P w =
     (case sharepoint_auth P w of
        (evs, Inl e) \<Rightarrow> (evs, Inl e)
      | (evs, Inr v) \<Rightarrow> (evs, Inr (console_log P v)))"

definition graph_hostname :: string where
  "graph_hostname = ''graph.microsoft.com''"

definition makeRequest_call :: "string \<Rightarrow> string \<Rightarrow> string \<Rightarrow> call" where
  "makeRequest_call host apiPath token =
     HttpsRequest
       \<lparr>hostname = host, port = 443, path = apiPath, method_name = ''GET'',
        headers = [(''Authorization'', HStr (''Bearer '' @ token)),
                   (''Accept'', HStr ''application/json'')]\<rparr>
       []"

text \<open>
  \<open>makeRequest\<close> calls \<open>callback(parsed)\<close> inside the \<open>try\<close> that guards
  \<open>JSON.parse\<close>: an exception the callback throws before it returns (\<open>None\<close>) is
  reported as an invalid JSON response too. The status code is not looked at.
\<close>

definition makeRequest ::
  "platform \<Rightarrow> world \<Rightarrow> string \<Rightarrow> string \<Rightarrow> string \<Rightarrow> (json \<Rightarrow> 'a run option) \<Rightarrow> 'a run" where
  "makeRequest P w host apiPath token callback =
     emit (Request (makeRequest_call host apiPath token))
       (case net w (makeRequest_call host apiPath token) of
          NetError e \<Rightarrow> exit1 (TransportError e)
        | Response res \<Rightarrow>
            (case JSON_parse P (body res) of
               None \<Rightarrow> exit1 (InvalidJSON (body res))
             | Some parsed \<Rightarrow>
                 (case callback parsed of
                    None \<Rightarrow> exit1 (InvalidJSON (body res))
                  | Some r \<Rightarrow> r)))"

definition getSiteId ::
  "platform \<Rightarrow> world \<Rightarrow> string \<Rightarrow> string \<Rightarrow> (json \<Rightarrow> 'a run option) \<Rightarrow> 'a run" where
  "getSiteId P w site token callback =
     makeRequest P w graph_hostname (''/v1.0/sites/'' @ site) token
       (\<lambda>data. case data of
          JNull \<Rightarrow> None
        | _ \<Rightarrow> if truthy (get data ''id'') then callback (the (get data ''id''))
               else Some (exit1 (SiteNotFound data)))"

definition getDriveId ::
  "platform \<Rightarrow> world \<Rightarrow> json \<Rightarrow> string \<Rightarrow> (json \<Rightarrow> 'a run option) \<Rightarrow> 'a run" where
  "getDriveId P w siteId token callback =
     makeRequest P w graph_hostname (''/v1.0/sites/'' @ template P siteId @ ''/drive'') token
       (\<lambda>data. case data of
          JNull \<Rightarrow> None
        | _ \<Rightarrow> if truthy (get data ''id'') then callback (the (get data ''id''))
               else Some (exit1 (DriveNotFound data)))"

text \<open>
  The three scripts get the token, get the tenant and resolve site and drive with the
  same lines (download 34 to 67, list 234 to 269, upload 45 to 84); \<open>op\<close> is the
  body of the innermost callback.
\<close>

definition pipeline ::
  "platform \<Rightarrow> world \<Rightarrow> string \<Rightarrow> (json \<Rightarrow> string \<Rightarrow> 'a run option) \<Rightarrow> 'a run" where
  "pipeline P w siteName op =
     execSync (auth_stdout P w) Failed_to_get_access_token (\<lambda>token.
       execSync (get_tenant w) Failed_to_get_tenant (\<lambda>tenant.
         getSiteId P w (tenant @ ''.sharepoint.com:/sites/'' @ siteName) token (\<lambda>actualSiteId.
           Some (getDriveId P w actualSiteId token (\<lambda>driveId. op driveId token)))))"

section \<open>sharepoint-download.js\<close>

datatype downloaded = Downloaded string nat

text \<open>
  \<open>fs.createWriteStream\<close> creates the file, or empties the one that is there;
  \<open>res.pipe(file)\<close> writes the body of the response into it; the size printed is
  that of the file just written. The \<open>fs.unlink\<close> of the error handler is taken to
  remove the file before the process ends. \<open>https.get\<close> is called after the
  stream is made, inside the handler of the first response: when it throws, for a
  URL that is not an https URL, nothing catches the exception.
\<close>

definition downloadFromUrl :: "platform \<Rightarrow> world \<Rightarrow> string \<Rightarrow> string \<Rightarrow> downloaded run" where
  "downloadFromUrl P w url outputPath =
     emit (CreateWriteStream outputPath)
       (case URL_protocol P url of
          None \<Rightarrow> exit1 (Uncaught ''ERR_INVALID_URL'')
        | Some protocol \<Rightarrow>
            if protocol = ''https:'' then
              emit (Request (HttpsGet url))
                (case net w (HttpsGet url) of
                   Response res \<Rightarrow>
                     emit (Pipe outputPath (body res))
                       (finish (Downloaded outputPath (length (body res))))
                 | NetError e \<Rightarrow> emit (Unlink outputPath) (exit1 (TransportError e)))
            else exit1 (Uncaught ''ERR_INVALID_PROTOCOL''))"

definition content_call :: "platform \<Rightarrow> json \<Rightarrow> string \<Rightarrow> string \<Rightarrow> call" where
  "content_call P driveId filePath token =
     HttpsRequest
       \<lparr>hostname = ''graph.microsoft.com'', port = 443,
        path = ''/v1.0/drives/'' @ template P driveId @ ''/root:/''
                 @ encodeURIComponent P filePath @ '':/content'',
        method_name = ''GET'',
        headers = [(''Authorization'', HStr (''Bearer '' @ token))]\<rparr>
       []"

definition downloadFile ::
  "platform \<Rightarrow> world \<Rightarrow> json \<Rightarrow> string \<Rightarrow> string \<Rightarrow> string \<Rightarrow> downloaded run" where
  "downloadFile P w driveId filePath token outputPath =
     emit (CreateWriteStream outputPath)
       (emit (Request (content_call P driveId filePath token))
          (case net w (content_call P driveId filePath token) of
             NetError e \<Rightarrow> exit1 (TransportError e)
           | Response res \<Rightarrow>
               if statusCode res = 200 then
                 emit (Pipe outputPath (body res))
                   (finish (Downloaded outputPath (length (body res))))
               else if statusCode res = 302 \<or> statusCode res = 301 then
                 (case URL_href P (location res) of
                    None \<Rightarrow> exit1 (Uncaught ''TypeError'')
                  | Some href \<Rightarrow> downloadFromUrl P w href outputPath)
               else exit1 (DownloadFailed (statusCode res) (body res))))"

definition download_script :: "platform \<Rightarrow> world \<Rightarrow> string list \<Rightarrow> downloaded run" where
  "download_script P w args =
     (case args of
        siteName # filePath # rest \<Rightarrow>
          (let outputPath =
                 (case rest of
                    [] \<Rightarrow> ''./'' @ basename P filePath
                  | a # _ \<Rightarrow> if a = [] then ''./'' @ basename P filePath else a)
           in pipeline P w siteName
                (\<lambda>driveId token. Some (downloadFile P w driveId filePath token outputPath)))
      | _ \<Rightarrow> exit1 Usage)"

text \<open>The file system after a run.\<close>

fun apply_event :: "event \<Rightarrow> (string \<rightharpoonup> string) \<Rightarrow> (string \<rightharpoonup> string)" where
  "apply_event (Request c) fs = fs"
| "apply_event (CreateWriteStream p) fs = fs(p \<mapsto> [])"
| "apply_event (Pipe p b) fs = fs(p \<mapsto> b)"
| "apply_event (Unlink p) fs = fs(p := None)"

fun fs_after :: "event list \<Rightarrow> (string \<rightharpoonup> string) \<Rightarrow> (string \<rightharpoonup> string)" where
  "fs_after [] fs = fs"
| "fs_after (e # evs) fs = fs_after evs (apply_event e fs)"

section \<open>sharepoint-list-files.js\<close>

record FileEntry =
  e_name :: "json option"
  e_size :: "json option"
  e_webUrl :: "json option"
  e_downloadUrl :: "json option"
  e_lastModified :: "json option"
  e_isFolder :: bool
  e_type :: json

text \<open>\<open>item.file?.mimeType\<close>\<close>

definition mimeType :: "json \<Rightarrow> json option" where
  "mimeType item =
     (case get item ''file'' of None \<Rightarrow> None | Some JNull \<Rightarrow> None | Some f \<Rightarrow> get f ''mimeType'')"

text \<open>The function mapped over \<open>data.value\<close>; on a \<open>null\<close> item it throws.\<close>

definition file_entry :: "json \<Rightarrow> FileEntry option" where
  "file_entry item =
     (case item of
        JNull \<Rightarrow> None
      | _ \<Rightarrow> Some
          \<lparr>e_name = get item ''name'',
           e_size = get item ''size'',
           e_webUrl = get item ''webUrl'',
           e_downloadUrl = get item ''@microsoft.graph.downloadUrl'',
           e_lastModified = get item ''lastModifiedDateTime'',
           e_isFolder = truthy (get item ''folder''),
           e_type = (if truthy (get item ''folder'') then JStr ''folder''
                     else if truthy (mimeType item) then the (mimeType item)
                     else JStr ''file'')\<rparr>)"

fun map_items :: "json list \<Rightarrow> FileEntry list option" where
  "map_items [] = Some []"
| "map_items (item # items) =
     (case file_entry item of
        None \<Rightarrow> None
      | Some e \<Rightarrow> (case map_items items of None \<Rightarrow> None | Some es \<Rightarrow> Some (e # es)))"

definition children_path :: "platform \<Rightarrow> json \<Rightarrow> string \<Rightarrow> string" where
  "children_path P driveId folderPath =
     (if folderPath \<noteq> [] then
        ''/v1.0/drives/'' @ template P driveId @ ''/root:/''
          @ encodeURIComponent P folderPath @ '':/children''
      else ''/v1.0/drives/'' @ template P driveId @ ''/root/children'')"

text \<open>
  The callback of \<open>listFiles\<close>. The value of a successful run is the array \<open>files\<close>
  that is printed with \<open>JSON.stringify\<close>. A \<open>data.value\<close> that is truthy and not an
  array has no \<open>map\<close>, and the call throws.
\<close>

definition list_callback :: "json \<Rightarrow> (FileEntry list) run option" where
  "list_callback data =
     (case data of
        JNull \<Rightarrow> None
      | _ \<Rightarrow>
          if truthy (get data ''value'') then
            (case get data ''value'' of
               Some (JArr items) \<Rightarrow>
                 (case map_items items of None \<Rightarrow> None | Some fs \<Rightarrow> Some (finish fs))
             | _ \<Rightarrow> None)
          else Some (exit1 (UnexpectedResponse data)))"

definition listFiles ::
  "platform \<Rightarrow> world \<Rightarrow> json \<Rightarrow> string \<Rightarrow> string \<Rightarrow> (FileEntry list) run" where
  "listFiles P w driveId folderPath token =
     makeRequest P w graph_hostname (children_path P driveId folderPath) token list_callback"

definition list_script :: "platform \<Rightarrow> world \<Rightarrow> string list \<Rightarrow> (FileEntry list) run" where
  "list_script P w args =
     (case args of
        [] \<Rightarrow> exit1 Usage
      | siteName # rest \<Rightarrow>
          (let folderPath = (case rest of [] \<Rightarrow> [] | a # _ \<Rightarrow> a)
           in pipeline P w siteName
                (\<lambda>driveId token. Some (listFiles P w driveId folderPath token))))"

section \<open>sharepoint-upload.js\<close>

datatype uploaded =
    Uploaded "json option" "json option" "json option"
  | Upload_successful

definition put_call :: "platform \<Rightarrow> json \<Rightarrow> string \<Rightarrow> string \<Rightarrow> string \<Rightarrow> call" where
  "put_call P driveId remotePath token fileContent =
     HttpsRequest
       \<lparr>hostname = ''graph.microsoft.com'', port = 443,
        path = ''/v1.0/drives/'' @ template P driveId @ ''/root:/''
                 @ encodeURIComponent P remotePath @ '':/content'',
        method_name = ''PUT'',
        headers = [(''Authorization'', HStr (''Bearer '' @ token)),
                   (''Content-Type'', HStr ''application/octet-stream''),
                   (''Content-Length'', HNum (length fileContent))]\<rparr>
       fileContent"

text \<open>
  Lines 139 to 155. Inside the \<open>try\<close>, a body that does not parse, or parses to
  \<open>null\<close>, leads to the \<open>catch\<close>, which prints that the upload was successful.
\<close>

definition put_response :: "platform \<Rightarrow> net_result \<Rightarrow> error + uploaded" where
  "put_response P r =
     (case r of
        NetError e \<Rightarrow> Inl (TransportError e)
      | Response res \<Rightarrow>
          if statusCode res = 200 \<or> statusCode res = 201 then
            (case JSON_parse P (body res) of
               None \<Rightarrow> Inr Upload_successful
             | Some JNull \<Rightarrow> Inr Upload_successful
             | Some result \<Rightarrow>
                 Inr (Uploaded (get result ''name'') (get result ''webUrl'') (get result ''size'')))
          else Inl (UploadFailed (statusCode res) (body res)))"

text \<open>\<open>fs.readFileSync\<close> throws when the file is not there.\<close>

definition uploadSmallFile ::
  "platform \<Rightarrow> world \<Rightarrow> json \<Rightarrow> string \<Rightarrow> string \<Rightarrow> string \<Rightarrow> uploaded run option" where
  "uploadSmallFile P w driveId remotePath localFile token =
     (case files w localFile of
        None \<Rightarrow> None
      | Some fileContent \<Rightarrow>
          Some (emit (Request (put_call P driveId remotePath token fileContent))
                  ([], put_response P (net w (put_call P driveId remotePath token fileContent)))))"

definition uploadLargeFile :: "json \<Rightarrow> string \<Rightarrow> string \<Rightarrow> string \<Rightarrow> uploaded run" where
  "uploadLargeFile driveId remotePath localFile token = exit1 NotImplemented"

definition upload_script :: "platform \<Rightarrow> world \<Rightarrow> string list \<Rightarrow> uploaded run" where
  "upload_script P w args =
     (case args of
        siteName # localFile # remotePath # _ \<Rightarrow>
          (case files w localFile of
             None \<Rightarrow> exit1 (LocalFileNotFound localFile)
           | Some content \<Rightarrow>
               (let fileSize = length content
                in pipeline P w siteName
                     (\<lambda>driveId token.
                        if fileSize < 4 * 1024 * 1024
                        then uploadSmallFile P w driveId remotePath localFile token
                        else Some (uploadLargeFile driveId remotePath localFile token))))
      | _ \<Rightarrow> exit1 Usage)"

section \<open>Notions used in the properties\<close>

text \<open>
  The token a run of the authentication script hands to its caller, if it does: what
  the script has printed on standard output when it ends with exit code 0.
\<close>

definition token_text :: "platform \<Rightarrow> (json option) run \<Rightarrow> string option" where
  "token_text P r = (case snd r of Inl e \<Rightarrow> None | Inr v \<Rightarrow> Some (console_log P v))"

text \<open>The \<open>Authorization\<close> header, the method and the body of a network call.\<close>

definition authorization :: "call \<Rightarrow> hval option" where
  "authorization c =
     (case c of HttpsRequest opts b \<Rightarrow> map_of (headers opts) ''Authorization'' | HttpsGet url \<Rightarrow> None)"

definition call_method :: "call \<Rightarrow> string" where
  "call_method c = (case c of HttpsRequest opts b \<Rightarrow> method_name opts | HttpsGet url \<Rightarrow> ''GET'')"


definition is_put :: "call \<Rightarrow> bool" where
  "is_put c = (call_method c = ''PUT'')"

text \<open>
  The requests of \<open>getSiteId\<close> and \<open>getDriveId\<close> as the scripts call them, and the
  id a resolver reads from an answer: \<open>data.id\<close>, when it is truthy.
\<close>

definition site_call :: "string \<Rightarrow> string \<Rightarrow> string \<Rightarrow> call" where
  "site_call tenant siteName token =
     makeRequest_call graph_hostname
       (''/v1.0/sites/'' @ tenant @ ''.sharepoint.com:/sites/'' @ siteName) token"

definition drive_call :: "platform \<Rightarrow> json \<Rightarrow> string \<Rightarrow> call" where
  "drive_call P siteId token =
     makeRequest_call graph_hostname (''/v1.0/sites/'' @ template P siteId @ ''/drive'') token"

definition resolved_id :: "platform \<Rightarrow> net_result \<Rightarrow> json option" where
  "resolved_id P r =
     (case r of
        NetError e \<Rightarrow> None
      | Response res \<Rightarrow>
          (case JSON_parse P (body res) of
             None \<Rightarrow> None
           | Some JNull \<Rightarrow> None
           | Some data \<Rightarrow> if truthy (get data ''id'') then get data ''id'' else None))"

text \<open>
  The token and the tenant that the shared lines go on with, and what a run has
  resolved when it reaches the operation.
\<close>

definition pipeline_token :: "platform \<Rightarrow> world \<Rightarrow> string option" where
  "pipeline_token P w = map_option stdout_trimmed (token_text P (sharepoint_auth P w))"

definition pipeline_tenant :: "world \<Rightarrow> string option" where
  "pipeline_tenant w =
     (case snd (get_tenant w) of Inl e \<Rightarrow> None | Inr out \<Rightarrow> Some (stdout_trimmed out))"

definition resolves ::
  "platform \<Rightarrow> world \<Rightarrow> string \<Rightarrow> string \<Rightarrow> string \<Rightarrow> json \<Rightarrow> json \<Rightarrow> bool" where
  "resolves P w siteName token tenant siteId driveId =
     (pipeline_token P w = Some token
      \<and> pipeline_tenant w = Some tenant
      \<and> resolved_id P (net w (site_call tenant siteName token)) = Some siteId
      \<and> resolved_id P (net w (drive_call P siteId token)) = Some driveId)"

section \<open>Example runs\<close>

text \<open>
  A platform for the examples. Each function below gives what Node.js gives on the
  inputs the examples use: JSON texts are listed with their values, the form body is
  that of the example credentials, the paths and URLs of the examples hold no
  character that would be escaped or normalised, and a URL is one that starts with
  \<open>https://\<close> or \<open>http://\<close>.
\<close>

definition demo_parse :: "string \<Rightarrow> json option" where
  \<open>demo_parse = map_of
     [(''{"access_token":"tok-1"}'', JObj [(''access_token'', JStr ''tok-1'')]),
      (''{}'', JObj []),
      (''null'', JNull),
      (''{"id":"site-1"}'', JObj [(''id'', JStr ''site-1'')]),
      (''{"id":"drive-1"}'', JObj [(''id'', JStr ''drive-1'')]),
      (''{"value":[{"name":"a.txt","size":3,"file":{"mimeType":"text/plain"}},{"name":"docs","folder":{"childCount":0}}]}'',
       JObj [(''value'', JArr
         [JObj [(''name'', JStr ''a.txt''), (''size'', JNum 3),
                (''file'', JObj [(''mimeType'', JStr ''text/plain'')])],
          JObj [(''name'', JStr ''docs''), (''folder'', JObj [(''childCount'', JNum 0)])]])]),
      (''{"name":"ten.txt","webUrl":"https://contoso.sharepoint.com/sites/TeamSite/ten.txt","size":10}'',
       JObj [(''name'', JStr ''ten.txt''),
             (''webUrl'', JStr ''https://contoso.sharepoint.com/sites/TeamSite/ten.txt''),
             (''size'', JNum 10)])]\<close>

definition demo_platform :: platform where
  "demo_platform =
     \<lparr>JSON_parse = demo_parse,
      String_of = (\<lambda>v. ''[object Object]''),
      inspect = (\<lambda>v. ''{}''),
      URLSearchParams_toString = (\<lambda>kvs.
        ''grant_type=client_credentials&client_id=app-1&client_secret=s3cret&scope=https%3A%2F%2Fgraph.microsoft.com%2F.default''),
      encodeURIComponent = (\<lambda>s. s),
      URL_href = (\<lambda>l. case l of
         None \<Rightarrow> None
       | Some u \<Rightarrow> if take 8 u = ''https://'' \<or> take 7 u = ''http://'' then Some u else None),
      URL_protocol = (\<lambda>u.
         if take 8 u = ''https://'' then Some ''https:''
         else if take 7 u = ''http://'' then Some ''http:''
         else None),
      basename = (\<lambda>s. s)\<rparr>"

definition demo_envPath :: string where
  "demo_envPath = ''/home/u/.config/bobby/sharepoint.env''"

definition demo_env :: string where
  "demo_env = ''TENANT=contoso.onmicrosoft.com'' @ [CHR 0x0A] @ ''CLIENT_ID=app-1'' @ [CHR 0x0A]
              @ ''CLIENT_SECRET=\"s3cret\"'' @ [CHR 0x0A]"

definition demo_creds :: credential_record where
  "demo_creds = \<lparr>TENANT = ''contoso.onmicrosoft.com'', CLIENT_ID = ''app-1'',
                  CLIENT_SECRET = ''s3cret''\<rparr>"

text \<open>A world with the example credentials whose network gives one fixed answer.\<close>

definition answering :: "net_result \<Rightarrow> world" where
  "answering r = \<lparr>envPath = demo_envPath, files = [demo_envPath \<mapsto> demo_env], net = (\<lambda>c. r)\<rparr>"

text \<open>A world without a credential file, and one whose file lacks the client secret.\<close>

definition unconfigured :: world where
  "unconfigured = \<lparr>envPath = demo_envPath, files = Map.empty, net = (\<lambda>c. NetError ''ENOTFOUND'')\<rparr>"

definition half_configured :: world where
  "half_configured =
     \<lparr>envPath = demo_envPath,
      files = [demo_envPath \<mapsto> ''TENANT=contoso'' @ [CHR 0x0A] @ ''CLIENT_ID=app-1''],
      net = (\<lambda>c. NetError ''ENOTFOUND'')\<rparr>"

text \<open>Answers of the token endpoint.\<close>

definition token_ok :: response where
  \<open>token_ok = \<lparr>statusCode = 200, location = None, body = ''{"access_token":"tok-1"}''\<rparr>\<close>

definition token_401 :: response where
  \<open>token_401 = \<lparr>statusCode = 401, location = None, body = ''{"error":"invalid_client"}''\<rparr>\<close>

definition token_empty :: response where
  \<open>token_empty = \<lparr>statusCode = 200, location = None, body = ''{}''\<rparr>\<close>

definition token_null :: response where
  \<open>token_null = \<lparr>statusCode = 200, location = None, body = ''null''\<rparr>\<close>

text \<open>
  A world for the file scripts: the token endpoint and the two resolver requests are
  answered as below, every other request with \<open>t\<close>, and \<open>https.get\<close> with \<open>g\<close>.
  It holds a file of 10 bytes and one of 4,194,304 bytes.
\<close>

definition site_ok :: response where
  \<open>site_ok = \<lparr>statusCode = 200, location = None, body = ''{"id":"site-1"}''\<rparr>\<close>

definition drive_ok :: response where
  \<open>drive_ok = \<lparr>statusCode = 200, location = None, body = ''{"id":"drive-1"}''\<rparr>\<close>

definition demo_net :: "net_result \<Rightarrow> net_result \<Rightarrow> call \<Rightarrow> net_result" where
  "demo_net t g c =
     (case c of
        HttpsGet url \<Rightarrow> g
      | HttpsRequest opts b \<Rightarrow>
          if hostname opts = ''login.microsoftonline.com'' then Response token_ok
          else if path opts = ''/v1.0/sites/contoso.sharepoint.com:/sites/TeamSite''
          then Response site_ok
          else if path opts = ''/v1.0/sites/site-1/drive'' then Response drive_ok
          else t)"

definition demo_world :: "net_result \<Rightarrow> net_result \<Rightarrow> world" where
  "demo_world t g =
     \<lparr>envPath = demo_envPath,
      files = [demo_envPath \<mapsto> demo_env,
               ''./ten.txt'' \<mapsto> ''0123456789'',
               ''./big.bin'' \<mapsto> replicate 4194304 (CHR ''x'')],
      net = demo_net t g\<rparr>"


definition content_302 :: response where
  "content_302 = \<lparr>statusCode = 302, location = Some ''https://cdn.example.com/blob?sig=abc'',
                   body = []\<rparr>"



definition content_404 :: response where
  \<open>content_404 = \<lparr>statusCode = 404, location = None, body = ''{"error":"itemNotFound"}''\<rparr>\<close>


definition blob_403 :: response where
  "blob_403 = \<lparr>statusCode = 403, location = None, body = ''Forbidden''\<rparr>"

text \<open>
  The worlds of the list and of the upload examples; a created answer with an empty
  body; a world with the 10-byte file and no credential file.
\<close>

definition children_ok :: response where
  \<open>children_ok = \<lparr>statusCode = 200, location = None,
     body = ''{"value":[{"name":"a.txt","size":3,"file":{"mimeType":"text/plain"}},{"name":"docs","folder":{"childCount":0}}]}''\<rparr>\<close>

definition put_created :: response where
  \<open>put_created = \<lparr>statusCode = 201, location = None,
     body = ''{"name":"ten.txt","webUrl":"https://contoso.sharepoint.com/sites/TeamSite/ten.txt","size":10}''\<rparr>\<close>




definition list_world :: world where
  "list_world = demo_world (Response children_ok) (NetError ''ENOTFOUND'')"

definition upload_world :: world where
  "upload_world = demo_world (Response put_created) (NetError ''ENOTFOUND'')"

definition list_op :: "json \<Rightarrow> string \<Rightarrow> (FileEntry list) run option" where
  "list_op driveId token = Some (listFiles demo_platform list_world driveId [] token)"


section \<open>Properties\<close>

subsection \<open>Credentials and token\<close>

text \<open>
  \<open>trim\<close> on the strings of the examples, and on a key that follows a byte order
  mark and is followed by a no-break space.
\<close>

lemma trim_examples:
  "trim ''TENANT'' = ''TENANT''"
  "trim ''CLIENT_ID'' = ''CLIENT_ID''"
  "trim ''CLIENT_SECRET'' = ''CLIENT_SECRET''"
  "trim ''contoso.onmicrosoft.com'' = ''contoso.onmicrosoft.com''"
  "trim ''contoso'' = ''contoso''"
  "trim ''app-1'' = ''app-1''"
  "trim ''\"s3cret\"'' = ''\"s3cret\"''"
  "trim [CHR ''t'', CHR ''o'', CHR ''k'', CHR ''-'', CHR ''1'', CHR 0x0A] = ''tok-1''"
  "trim [CHR ''c'', CHR ''o'', CHR ''n'', CHR ''t'', CHR ''o'', CHR ''s'', CHR ''o'', CHR 0x0A]
     = ''contoso''"
  "trim ([CHR 0xEF, CHR 0xBB, CHR 0xBF] @ '' TENANT'' @ [CHR 0xC2, CHR 0xA0]) = ''TENANT''"
  by (simp_all add: trim_def strip.simps space_len_def white_space_def)

lemmas env_simps =
  parse_env_def match_line_def trim_examples strip_quotes_def is_quote_def
  or_else_def falsy_def

lemma demo_load: "load_credentials (answering r) = Inr demo_creds"
  by (simp add: load_credentials_def answering_def demo_env_def demo_creds_def env_simps)

lemma auth_result:
  "load_credentials w = Inr c \<Longrightarrow>
   snd (sharepoint_auth P w) = token_response P (net w (token_call P c))"
  by (simp add: sharepoint_auth_def acquire_def emit_def)

lemma auth_unconfigured:
  "files w (envPath w) = None \<Longrightarrow> sharepoint_auth P w = ([], Inl ConfigMissing)"
  by (simp add: sharepoint_auth_def load_credentials_def exit1_def)

text \<open>
  C8. When the credential file does not exist, the authentication script fails with
  ConfigMissing and has made no network call, and so does every file script that
  starts with it. When the file exists and, after parsing, the tenant, the client id
  or the client secret is absent (or empty) under both of its accepted keys, the
  script fails with ConfigIncomplete, again without a network call.
\<close>

theorem load_ConfigMissing_ConfigIncomplete:
  "(files w (envPath w) = None \<longrightarrow>
      sharepoint_auth P w = ([], Inl ConfigMissing)
      \<and> pipeline P w siteName op = ([], Inl (Failed_to_get_access_token ConfigMissing)))
   \<and> (files w (envPath w) = Some envContent
      \<and> ((parse_env envContent ''TEAMS_TENANT_ID'' \<in> {None, Some []}
           \<and> parse_env envContent ''TENANT'' \<in> {None, Some []})
         \<or> (parse_env envContent ''TEAMS_CLIENT_ID'' \<in> {None, Some []}
           \<and> parse_env envContent ''CLIENT_ID'' \<in> {None, Some []})
         \<or> (parse_env envContent ''TEAMS_CLIENT_SECRET'' \<in> {None, Some []}
           \<and> parse_env envContent ''CLIENT_SECRET'' \<in> {None, Some []}))
      \<longrightarrow> (\<exists>m. sharepoint_auth P w = ([], Inl (ConfigIncomplete m))))"
proof (intro conjI impI)
  assume "files w (envPath w) = None"
  then show "sharepoint_auth P w = ([], Inl ConfigMissing)"
    by (rule auth_unconfigured)
next
  assume "files w (envPath w) = None"
  then show "pipeline P w siteName op = ([], Inl (Failed_to_get_access_token ConfigMissing))"
    by (simp add: pipeline_def execSync_def auth_stdout_def auth_unconfigured)
next
  assume "files w (envPath w) = Some envContent
      \<and> ((parse_env envContent ''TEAMS_TENANT_ID'' \<in> {None, Some []}
           \<and> parse_env envContent ''TENANT'' \<in> {None, Some []})
         \<or> (parse_env envContent ''TEAMS_CLIENT_ID'' \<in> {None, Some []}
           \<and> parse_env envContent ''CLIENT_ID'' \<in> {None, Some []})
         \<or> (parse_env envContent ''TEAMS_CLIENT_SECRET'' \<in> {None, Some []}
           \<and> parse_env envContent ''CLIENT_SECRET'' \<in> {None, Some []}))"
  then show "\<exists>m. sharepoint_auth P w = ([], Inl (ConfigIncomplete m))"
    by (auto simp add: sharepoint_auth_def load_credentials_def exit1_def Let_def
          or_else_def falsy_def split: option.splits list.splits)
qed

theorem load_ConfigMissing_ConfigIncomplete_witness:
  "files unconfigured (envPath unconfigured) = None
   \<and> sharepoint_auth demo_platform unconfigured = ([], Inl ConfigMissing)
   \<and> pipeline demo_platform unconfigured ''TeamSite'' (\<lambda>driveId token. Some (exit1 NotImplemented :: uploaded run))
       = ([], Inl (Failed_to_get_access_token ConfigMissing))
   \<and> files half_configured (envPath half_configured)
       = Some (''TENANT=contoso'' @ [CHR 0x0A] @ ''CLIENT_ID=app-1'')
   \<and> parse_env (''TENANT=contoso'' @ [CHR 0x0A] @ ''CLIENT_ID=app-1'') ''TEAMS_CLIENT_SECRET'' = None
   \<and> parse_env (''TENANT=contoso'' @ [CHR 0x0A] @ ''CLIENT_ID=app-1'') ''CLIENT_SECRET'' = None
   \<and> sharepoint_auth demo_platform half_configured = ([], Inl (ConfigIncomplete ''CLIENT''))"
proof -
  have missing: "files unconfigured (envPath unconfigured) = None"
    by (simp add: unconfigured_def)
  have there: "files half_configured (envPath half_configured)
       = Some (''TENANT=contoso'' @ [CHR 0x0A] @ ''CLIENT_ID=app-1'')"
    by (simp add: half_configured_def)
  have absent:
    "parse_env (''TENANT=contoso'' @ [CHR 0x0A] @ ''CLIENT_ID=app-1'') ''TEAMS_CLIENT_SECRET'' = None"
    "parse_env (''TENANT=contoso'' @ [CHR 0x0A] @ ''CLIENT_ID=app-1'') ''CLIENT_SECRET'' = None"
    by (simp_all add: env_simps)
  have which: "sharepoint_auth demo_platform half_configured = ([], Inl (ConfigIncomplete m))
      \<Longrightarrow> m = ''CLIENT''" for m
    by (simp add: sharepoint_auth_def load_credentials_def half_configured_def demo_envPath_def
          exit1_def env_simps)
  from load_ConfigMissing_ConfigIncomplete
         [where w = unconfigured and P = demo_platform and siteName = "''TeamSite''"
            and op = "\<lambda>driveId token. Some (exit1 NotImplemented :: uploaded run)"]
       load_ConfigMissing_ConfigIncomplete
         [where w = half_configured and P = demo_platform
            and envContent = "''TENANT=contoso'' @ [CHR 0x0A] @ ''CLIENT_ID=app-1''"]
       missing there absent which
  show ?thesis by auto
qed

lemma token_response_Inr:
  "token_response P r = Inr v \<Longrightarrow>
   \<exists>res tok. r = Response res \<and> statusCode res = 200 \<and> JSON_parse P (body res) = Some tok
     \<and> tok \<noteq> JNull \<and> v = get tok ''access_token''"
  by (auto simp add: token_response_def split: net_result.splits if_splits option.splits json.splits)

text \<open>
  C3, as amended. With a well-formed credential record the script makes the one token
  request. On a response with status 200 whose body parses to a value whose
  \<open>access_token\<close> member is the string \<open>X\<close>, it hands the token \<open>X\<close> to its caller.
  On a response with any other status it fails with AuthRejected, which carries the
  status code and the raw body, and hands over no token. A token is handed over only
  on a response with status 200 whose body parses to a value other than \<open>null\<close>; it
  is the \<open>access_token\<close> member as \<open>console.log\<close> prints it.
\<close>

theorem acquire_token_or_AuthRejected:
  assumes "load_credentials w = Inr c"
  shows
  "(net w (token_call P c) = Response res \<and> statusCode res = 200
      \<and> JSON_parse P (body res) = Some tok \<and> get tok ''access_token'' = Some (JStr X)
      \<longrightarrow> sharepoint_auth P w = ([Request (token_call P c)], Inr (Some (JStr X)))
        \<and> token_text P (sharepoint_auth P w) = Some X)
   \<and> (net w (token_call P c) = Response res \<and> statusCode res \<noteq> 200
      \<longrightarrow> sharepoint_auth P w
            = ([Request (token_call P c)], Inl (AuthRejected (statusCode res) (body res)))
        \<and> token_text P (sharepoint_auth P w) = None)
   \<and> (token_text P (sharepoint_auth P w) = Some Y
      \<longrightarrow> (\<exists>res' tok'. net w (token_call P c) = Response res' \<and> statusCode res' = 200
            \<and> JSON_parse P (body res') = Some tok' \<and> tok' \<noteq> JNull
            \<and> Y = console_log P (get tok' ''access_token'')))"
proof (intro conjI impI)
  assume h: "net w (token_call P c) = Response res \<and> statusCode res = 200
      \<and> JSON_parse P (body res) = Some tok \<and> get tok ''access_token'' = Some (JStr X)"
  then have "tok \<noteq> JNull" by auto
  with h have "token_response P (net w (token_call P c)) = Inr (Some (JStr X))"
    by (cases tok) (simp_all add: token_response_def)
  with assms show "sharepoint_auth P w = ([Request (token_call P c)], Inr (Some (JStr X)))"
    by (simp add: sharepoint_auth_def acquire_def emit_def)
  then show "token_text P (sharepoint_auth P w) = Some X"
    by (simp add: token_text_def console_log_def)
next
  assume h: "net w (token_call P c) = Response res \<and> statusCode res \<noteq> 200"
  with assms show "sharepoint_auth P w
            = ([Request (token_call P c)], Inl (AuthRejected (statusCode res) (body res)))"
    by (simp add: sharepoint_auth_def acquire_def emit_def token_response_def)
  then show "token_text P (sharepoint_auth P w) = None"
    by (simp add: token_text_def)
next
  assume "token_text P (sharepoint_auth P w) = Some Y"
  then obtain v where v: "snd (sharepoint_auth P w) = Inr v" and Y: "Y = console_log P v"
    by (auto simp add: token_text_def split: sum.splits)
  from v assms have "token_response P (net w (token_call P c)) = Inr v"
    by (simp add: auth_result)
  from token_response_Inr [OF this] Y
  show "\<exists>res' tok'. net w (token_call P c) = Response res' \<and> statusCode res' = 200
            \<and> JSON_parse P (body res') = Some tok' \<and> tok' \<noteq> JNull
            \<and> Y = console_log P (get tok' ''access_token'')"
    by blast
qed


lemma demo_parse_simps:
  \<open>JSON_parse demo_platform ''{"access_token":"tok-1"}'' = Some (JObj [(''access_token'', JStr ''tok-1'')])\<close>
  \<open>JSON_parse demo_platform ''{}'' = Some (JObj [])\<close>
  \<open>JSON_parse demo_platform ''null'' = Some JNull\<close>
  by (simp_all add: demo_platform_def demo_parse_def)

lemma net_answering: "net (answering r) c = r"
  by (simp add: answering_def)

lemma demo_auth:
  "sharepoint_auth demo_platform (answering r)
     = ([Request (token_call demo_platform demo_creds)], token_response demo_platform r)"
  by (simp add: sharepoint_auth_def demo_load acquire_def emit_def net_answering)

theorem acquire_token_or_AuthRejected_witness:
  "load_credentials (answering (Response token_ok)) = Inr demo_creds
   \<and> sharepoint_auth demo_platform (answering (Response token_ok))
       = ([Request (token_call demo_platform demo_creds)], Inr (Some (JStr ''tok-1'')))
   \<and> token_text demo_platform (sharepoint_auth demo_platform (answering (Response token_ok)))
       = Some ''tok-1''
   \<and> statusCode token_401 \<noteq> 200
   \<and> sharepoint_auth demo_platform (answering (Response token_401))
       = ([Request (token_call demo_platform demo_creds)],
          Inl (AuthRejected 401 (body token_401)))
   \<and> token_text demo_platform (sharepoint_auth demo_platform (answering (Response token_401)))
       = None"
proof -
  have ok: "net (answering (Response token_ok)) (token_call demo_platform demo_creds) = Response token_ok
      \<and> statusCode token_ok = 200
      \<and> JSON_parse demo_platform (body token_ok) = Some (JObj [(''access_token'', JStr ''tok-1'')])
      \<and> get (JObj [(''access_token'', JStr ''tok-1'')]) ''access_token'' = Some (JStr ''tok-1'')"
    by (simp add: net_answering token_ok_def demo_parse_simps)
  have rej: "net (answering (Response token_401)) (token_call demo_platform demo_creds) = Response token_401
      \<and> statusCode token_401 \<noteq> 200"
    by (simp add: net_answering token_401_def)
  from acquire_token_or_AuthRejected [OF demo_load, of "Response token_ok" demo_platform token_ok
         "JObj [(''access_token'', JStr ''tok-1'')]" "''tok-1''"] ok
  have 1: "sharepoint_auth demo_platform (answering (Response token_ok))
       = ([Request (token_call demo_platform demo_creds)], Inr (Some (JStr ''tok-1'')))
     \<and> token_text demo_platform (sharepoint_auth demo_platform (answering (Response token_ok)))
       = Some ''tok-1''"
    by blast
  from acquire_token_or_AuthRejected [OF demo_load, of "Response token_401" demo_platform token_401] rej
  have 2: "sharepoint_auth demo_platform (answering (Response token_401))
       = ([Request (token_call demo_platform demo_creds)],
          Inl (AuthRejected (statusCode token_401) (body token_401)))
     \<and> token_text demo_platform (sharepoint_auth demo_platform (answering (Response token_401)))
       = None"
    by blast
  have "statusCode token_401 = 401" by (simp add: token_401_def)
  with 2 have 3: "sharepoint_auth demo_platform (answering (Response token_401))
       = ([Request (token_call demo_platform demo_creds)],
          Inl (AuthRejected 401 (body token_401)))" by simp
  from 1 2 3 rej demo_load show ?thesis by blast
qed

text \<open>
  As the specification words it, the script hands over the token \<open>X\<close> exactly
  when the \<open>access_token\<close> member is \<open>X\<close>. On status 200 with the body \<open>{}\<close>
  the script prints \<open>undefined\<close> and ends with exit code 0: its caller gets the
  token \<open>undefined\<close> though no member is that string.
\<close>

theorem acquire_exactly_when_counterexample:
  "load_credentials (answering (Response token_empty)) = Inr demo_creds
   \<and> net (answering (Response token_empty)) (token_call demo_platform demo_creds) = Response token_empty
   \<and> JSON_parse demo_platform (body token_empty) = Some (JObj [])
   \<and> get (JObj []) ''access_token'' \<noteq> Some (JStr ''undefined'')
   \<and> sharepoint_auth demo_platform (answering (Response token_empty))
       = ([Request (token_call demo_platform demo_creds)], Inr None)
   \<and> token_text demo_platform (sharepoint_auth demo_platform (answering (Response token_empty)))
       = Some ''undefined''"
  by (simp add: demo_load demo_auth net_answering token_response_def
        token_empty_def demo_parse_simps token_text_def console_log_def)

text \<open>
  C10, as amended. On a response with status 200 whose body parses to a value other
  than \<open>null\<close> that has no \<open>access_token\<close> member, the script raises no error: it
  prints \<open>undefined\<close> on standard output and ends with exit code 0.
\<close>

theorem token_undefined_reported_as_success:
  assumes "load_credentials w = Inr c"
    and "net w (token_call P c) = Response res"
    and "statusCode res = 200"
    and "JSON_parse P (body res) = Some tok"
    and "tok \<noteq> JNull"
    and "get tok ''access_token'' = None"
  shows "sharepoint_auth P w = ([Request (token_call P c)], Inr None)
         \<and> token_text P (sharepoint_auth P w) = Some ''undefined''"
proof -
  from assms have "token_response P (net w (token_call P c)) = Inr None"
    by (cases tok) (simp_all add: token_response_def)
  with assms(1) have "sharepoint_auth P w = ([Request (token_call P c)], Inr None)"
    by (simp add: sharepoint_auth_def acquire_def emit_def)
  then show ?thesis
    by (simp add: token_text_def console_log_def)
qed

theorem token_undefined_reported_as_success_witness:
  "load_credentials (answering (Response token_empty)) = Inr demo_creds
   \<and> net (answering (Response token_empty)) (token_call demo_platform demo_creds) = Response token_empty
   \<and> statusCode token_empty = 200
   \<and> JSON_parse demo_platform (body token_empty) = Some (JObj [])
   \<and> JObj [] \<noteq> JNull
   \<and> get (JObj []) ''access_token'' = None
   \<and> sharepoint_auth demo_platform (answering (Response token_empty))
       = ([Request (token_call demo_platform demo_creds)], Inr None)
   \<and> token_text demo_platform (sharepoint_auth demo_platform (answering (Response token_empty)))
       = Some ''undefined''"
proof -
  have n: "net (answering (Response token_empty)) (token_call demo_platform demo_creds) = Response token_empty"
    by (simp add: net_answering)
  have s: "statusCode token_empty = 200" by (simp add: token_empty_def)
  have p: "JSON_parse demo_platform (body token_empty) = Some (JObj [])"
    by (simp add: token_empty_def demo_parse_simps)
  have d: "JObj [] \<noteq> JNull" by simp
  have g: "get (JObj []) ''access_token'' = None" by simp
  from token_undefined_reported_as_success [OF demo_load n s p d g] demo_load n s p d g
  show ?thesis by blast
qed

text \<open>
  The body \<open>null\<close> is valid JSON without an \<open>access_token\<close> member, and there the read
  of the member throws: the process ends with an uncaught TypeError and prints no
  token.
\<close>

theorem token_null_body_counterexample:
  "load_credentials (answering (Response token_null)) = Inr demo_creds
   \<and> net (answering (Response token_null)) (token_call demo_platform demo_creds) = Response token_null
   \<and> statusCode token_null = 200
   \<and> JSON_parse demo_platform (body token_null) = Some JNull
   \<and> get JNull ''access_token'' = None
   \<and> sharepoint_auth demo_platform (answering (Response token_null))
       = ([Request (token_call demo_platform demo_creds)], Inl (Uncaught ''TypeError''))
   \<and> token_text demo_platform (sharepoint_auth demo_platform (answering (Response token_null))) = None"
  by (simp add: demo_load demo_auth net_answering token_response_def
        token_null_def demo_parse_simps token_text_def)

subsection \<open>Download\<close>

lemma calls_simps:
  "calls [] = []"
  "calls (Request c # evs) = c # calls evs"
  "calls (CreateWriteStream p # evs) = calls evs"
  "calls (Pipe p b # evs) = calls evs"
  "calls (Unlink p # evs) = calls evs"
  by (simp_all add: calls_def)

lemma downloadFromUrl_https:
  "URL_protocol P url = Some ''https:'' \<Longrightarrow> net w (HttpsGet url) = Response res \<Longrightarrow>
   downloadFromUrl P w url outputPath
     = ([CreateWriteStream outputPath, Request (HttpsGet url), Pipe outputPath (body res)],
        Inr (Downloaded outputPath (length (body res))))"
  by (simp add: downloadFromUrl_def emit_def finish_def)


lemma downloadFile_redirect:
  "net w (content_call P driveId filePath token) = Response res \<Longrightarrow>
   statusCode res = 301 \<or> statusCode res = 302 \<Longrightarrow>
   URL_href P (location res) = Some href \<Longrightarrow>
   downloadFile P w driveId filePath token outputPath
     = (CreateWriteStream outputPath # Request (content_call P driveId filePath token)
          # fst (downloadFromUrl P w href outputPath),
        snd (downloadFromUrl P w href outputPath))"
  by (auto simp add: downloadFile_def emit_def)

lemma downloadFile_no_URL:
  "net w (content_call P driveId filePath token) = Response res \<Longrightarrow>
   statusCode res = 301 \<or> statusCode res = 302 \<Longrightarrow>
   URL_href P (location res) = None \<Longrightarrow>
   downloadFile P w driveId filePath token outputPath
     = ([CreateWriteStream outputPath, Request (content_call P driveId filePath token)],
        Inl (Uncaught ''TypeError''))"
  by (auto simp add: downloadFile_def emit_def exit1_def)

lemma downloadFromUrl_calls:
  "calls (fst (downloadFromUrl P w url outputPath))
     = (if URL_protocol P url = Some ''https:'' then [HttpsGet url] else [])"
  by (simp add: downloadFromUrl_def emit_def finish_def exit1_def calls_simps
        split: net_result.splits option.splits)

text \<open>
  After a 301 or 302 the second GET is made exactly when the \<open>Location\<close> header
  holds a URL and the protocol of that URL is \<open>https:\<close>.
\<close>

lemma redirect_followed_iff:
  assumes "net w (content_call P driveId filePath token) = Response res"
    and "statusCode res = 301 \<or> statusCode res = 302"
  shows "HttpsGet url \<in> set (calls (fst (downloadFile P w driveId filePath token outputPath)))
         \<longleftrightarrow> URL_href P (location res) = Some url \<and> URL_protocol P url = Some ''https:''"
proof (cases "URL_href P (location res)")
  case None
  with downloadFile_no_URL [OF assms None] show ?thesis
    by (simp add: calls_simps content_call_def)
next
  case (Some href)
  with downloadFile_redirect [OF assms Some] show ?thesis
    by (auto simp add: calls_simps downloadFromUrl_calls content_call_def)
qed


text \<open>
  C9. When Download follows a 301 or 302, which it does when the \<open>Location\<close> header
  holds a URL with the protocol \<open>https:\<close>, then whatever the status code of the
  second response is, its body is written to the output file and the download ends
  as a success.
\<close>

theorem redirect_status_not_inspected:
  assumes "net w (content_call P driveId filePath token) = Response res"
    and "statusCode res = 301 \<or> statusCode res = 302"
    and "URL_href P (location res) = Some href"
    and "URL_protocol P href = Some ''https:''"
    and "net w (HttpsGet href) = Response res2"
  shows "HttpsGet href \<in> set (calls (fst (downloadFile P w driveId filePath token outputPath)))
         \<and> snd (downloadFile P w driveId filePath token outputPath)
           = Inr (Downloaded outputPath (length (body res2)))
         \<and> fs_after (fst (downloadFile P w driveId filePath token outputPath)) (files w) outputPath
           = Some (body res2)"
  by (simp add: downloadFile_redirect [OF assms(1,2,3)] downloadFromUrl_https [OF assms(4,5)]
        calls_simps)

lemma demo_content:
  "net (demo_world t g) (content_call demo_platform (JStr ''drive-1'') ''report.pdf'' ''tok-1'') = t"
  by (simp add: demo_world_def demo_net_def content_call_def demo_platform_def template_def)

lemma demo_get: "net (demo_world t g) (HttpsGet url) = g"
  by (simp add: demo_world_def demo_net_def)

lemma demo_files_out: "files (demo_world t g) ''./report.pdf'' = None"
  by (simp add: demo_world_def demo_envPath_def)

lemma demo_URL:
  "URL_href demo_platform (Some ''https://cdn.example.com/blob?sig=abc'')
     = Some ''https://cdn.example.com/blob?sig=abc''"
  "URL_protocol demo_platform ''https://cdn.example.com/blob?sig=abc'' = Some ''https:''"
  "URL_href demo_platform (Some ''http://cdn.example.com/blob?sig=abc'')
     = Some ''http://cdn.example.com/blob?sig=abc''"
  "URL_protocol demo_platform ''http://cdn.example.com/blob?sig=abc'' = Some ''http:''"
  "URL_href demo_platform (Some ''/blob?sig=abc'') = None"
  by (simp_all add: demo_platform_def)

text \<open>
  C2. The specification asks that no output file is left after a failed download. On
  a 404 answer to the content request, and on a transport error of that request, the
  file that \<open>fs.createWriteStream\<close> made is still there, empty, when the process
  ends; only the error handler of the redirected request removes it.
\<close>

theorem download_failure_leaves_file:
  "snd (downloadFile demo_platform (demo_world (Response content_404) (NetError ''ENOTFOUND''))
          (JStr ''drive-1'') ''report.pdf'' ''tok-1'' ''./report.pdf'')
     = Inl (DownloadFailed 404 (body content_404))
   \<and> files (demo_world (Response content_404) (NetError ''ENOTFOUND'')) ''./report.pdf'' = None
   \<and> fs_after
        (fst (downloadFile demo_platform (demo_world (Response content_404) (NetError ''ENOTFOUND''))
           (JStr ''drive-1'') ''report.pdf'' ''tok-1'' ''./report.pdf''))
        (files (demo_world (Response content_404) (NetError ''ENOTFOUND''))) ''./report.pdf''
     = Some []
   \<and> snd (downloadFile demo_platform (demo_world (NetError ''ECONNRESET'') (NetError ''ENOTFOUND''))
          (JStr ''drive-1'') ''report.pdf'' ''tok-1'' ''./report.pdf'')
     = Inl (TransportError ''ECONNRESET'')
   \<and> fs_after
        (fst (downloadFile demo_platform (demo_world (NetError ''ECONNRESET'') (NetError ''ENOTFOUND''))
           (JStr ''drive-1'') ''report.pdf'' ''tok-1'' ''./report.pdf''))
        (files (demo_world (NetError ''ECONNRESET'') (NetError ''ENOTFOUND''))) ''./report.pdf''
     = Some []"
  by (simp add: downloadFile_def demo_content demo_files_out emit_def exit1_def content_404_def)

text \<open>The branch that does clean up: a transport error of the redirected request.\<close>

lemma redirect_error_unlinks:
  "URL_protocol P url = Some ''https:'' \<Longrightarrow> net w (HttpsGet url) = NetError e \<Longrightarrow>
   snd (downloadFromUrl P w url outputPath) = Inl (TransportError e)
   \<and> fs_after (fst (downloadFromUrl P w url outputPath)) fs outputPath = None"
  by (simp add: downloadFromUrl_def emit_def exit1_def)



theorem redirect_status_not_inspected_witness:
  "net (demo_world (Response content_302) (Response blob_403))
       (content_call demo_platform (JStr ''drive-1'') ''report.pdf'' ''tok-1'') = Response content_302
   \<and> statusCode content_302 = 302
   \<and> URL_href demo_platform (location content_302) = Some ''https://cdn.example.com/blob?sig=abc''
   \<and> URL_protocol demo_platform ''https://cdn.example.com/blob?sig=abc'' = Some ''https:''
   \<and> net (demo_world (Response content_302) (Response blob_403))
       (HttpsGet ''https://cdn.example.com/blob?sig=abc'') = Response blob_403
   \<and> statusCode blob_403 = 403
   \<and> HttpsGet ''https://cdn.example.com/blob?sig=abc''
       \<in> set (calls (fst (downloadFile demo_platform
                  (demo_world (Response content_302) (Response blob_403))
                  (JStr ''drive-1'') ''report.pdf'' ''tok-1'' ''./report.pdf'')))
   \<and> snd (downloadFile demo_platform (demo_world (Response content_302) (Response blob_403))
           (JStr ''drive-1'') ''report.pdf'' ''tok-1'' ''./report.pdf'')
       = Inr (Downloaded ''./report.pdf'' 9)
   \<and> fs_after
        (fst (downloadFile demo_platform (demo_world (Response content_302) (Response blob_403))
           (JStr ''drive-1'') ''report.pdf'' ''tok-1'' ''./report.pdf''))
        (files (demo_world (Response content_302) (Response blob_403))) ''./report.pdf''
       = Some ''Forbidden''"
proof -
  have a: "net (demo_world (Response content_302) (Response blob_403))
       (content_call demo_platform (JStr ''drive-1'') ''report.pdf'' ''tok-1'') = Response content_302"
    by (simp add: demo_content)
  have b: "statusCode content_302 = 301 \<or> statusCode content_302 = 302"
    by (simp add: content_302_def)
  have l: "URL_href demo_platform (location content_302)
             = Some ''https://cdn.example.com/blob?sig=abc''"
    by (simp add: content_302_def demo_URL)
  have d: "net (demo_world (Response content_302) (Response blob_403))
       (HttpsGet ''https://cdn.example.com/blob?sig=abc'') = Response blob_403"
    by (simp add: demo_get)
  have v: "statusCode content_302 = 302" "statusCode blob_403 = 403" "body blob_403 = ''Forbidden''"
     "length (body blob_403) = 9"
    by (simp_all add: content_302_def blob_403_def)
  from redirect_status_not_inspected [OF a b l demo_URL(2) d, of "''./report.pdf''"]
       a l d v demo_URL(2)
  show ?thesis by simp
qed

subsection \<open>The shared lines, stage by stage\<close>

lemma get_tenant_events: "fst (get_tenant w) = []"
  by (simp add: get_tenant_def exit1_def finish_def Let_def split: option.splits)

lemma makeRequest_unresolved:
  assumes "resolved_id P (net w (makeRequest_call h p t)) = None"
    and "\<And>data. data \<noteq> JNull \<Longrightarrow> truthy (get data ''id'') \<or> (\<exists>e. cb data = Some (exit1 e))"
    and "cb JNull = None"
  shows "\<exists>e. makeRequest P w h p t cb = ([Request (makeRequest_call h p t)], Inl e)"
proof (cases "net w (makeRequest_call h p t)")
  case (NetError e)
  then show ?thesis by (simp add: makeRequest_def emit_def exit1_def)
next
  case (Response res)
  show ?thesis
  proof (cases "JSON_parse P (body res)")
    case None
    with Response show ?thesis by (simp add: makeRequest_def emit_def exit1_def)
  next
    case (Some data)
    show ?thesis
    proof (cases "data = JNull")
      case True
      with Response Some assms(3) show ?thesis by (simp add: makeRequest_def emit_def exit1_def)
    next
      case False
      with assms(1) Response Some have "\<not> truthy (get data ''id'')"
        by (cases data) (auto simp add: resolved_id_def split: if_splits)
      with assms(2) [OF False] obtain e where "cb data = Some (exit1 e)" by blast
      with Response Some show ?thesis by (simp add: makeRequest_def emit_def exit1_def)
    qed
  qed
qed

lemma makeRequest_resolved:
  assumes "resolved_id P (net w (makeRequest_call h p t)) = Some i"
    and "\<And>data. data \<noteq> JNull \<Longrightarrow> truthy (get data ''id'') \<Longrightarrow> cb data = k (the (get data ''id''))"
  shows "makeRequest P w h p t cb =
           (case k i of
              Some r \<Rightarrow> (Request (makeRequest_call h p t) # fst r, snd r)
            | None \<Rightarrow> ([Request (makeRequest_call h p t)],
                       Inl (InvalidJSON (case net w (makeRequest_call h p t) of
                                           Response res \<Rightarrow> body res | NetError e \<Rightarrow> []))))"
proof -
  from assms(1) obtain res data where r: "net w (makeRequest_call h p t) = Response res"
    and d: "JSON_parse P (body res) = Some data" and n: "data \<noteq> JNull"
    and t: "truthy (get data ''id'')" and i: "get data ''id'' = Some i"
    by (auto simp add: resolved_id_def split: net_result.splits option.splits json.splits if_splits)
  from assms(2) [OF n t] i have "cb data = k i" by simp
  with r d show ?thesis
    by (simp add: makeRequest_def emit_def exit1_def split: option.splits)
qed

lemma getSiteId_unresolved:
  "resolved_id P (net w (makeRequest_call graph_hostname (''/v1.0/sites/'' @ site) token)) = None \<Longrightarrow>
   \<exists>e. getSiteId P w site token cb
         = ([Request (makeRequest_call graph_hostname (''/v1.0/sites/'' @ site) token)], Inl e)"
  unfolding getSiteId_def
  by (rule makeRequest_unresolved) (auto split: json.splits)

lemma getSiteId_resolved:
  "resolved_id P (net w (makeRequest_call graph_hostname (''/v1.0/sites/'' @ site) token)) = Some i \<Longrightarrow>
   cb i = Some r \<Longrightarrow>
   getSiteId P w site token cb
     = (Request (makeRequest_call graph_hostname (''/v1.0/sites/'' @ site) token) # fst r, snd r)"
  unfolding getSiteId_def
  by (subst makeRequest_resolved [where k = cb and i = i]) (auto split: json.splits)

lemma getSiteId_site_unresolved:
  "resolved_id P (net w (site_call tenant siteName token)) = None \<Longrightarrow>
   \<exists>e. getSiteId P w (tenant @ ''.sharepoint.com:/sites/'' @ siteName) token cb
         = ([Request (site_call tenant siteName token)], Inl e)"
  unfolding site_call_def by (rule getSiteId_unresolved)

lemma getSiteId_site_resolved:
  "resolved_id P (net w (site_call tenant siteName token)) = Some i \<Longrightarrow> cb i = Some r \<Longrightarrow>
   getSiteId P w (tenant @ ''.sharepoint.com:/sites/'' @ siteName) token cb
     = (Request (site_call tenant siteName token) # fst r, snd r)"
  unfolding site_call_def by (rule getSiteId_resolved)

lemma getDriveId_unresolved:
  "resolved_id P (net w (drive_call P siteId token)) = None \<Longrightarrow>
   \<exists>e. getDriveId P w siteId token cb = ([Request (drive_call P siteId token)], Inl e)"
  unfolding getDriveId_def drive_call_def
  by (rule makeRequest_unresolved) (auto split: json.splits)

lemma getDriveId_resolved:
  "resolved_id P (net w (drive_call P siteId token)) = Some i \<Longrightarrow>
   getDriveId P w siteId token cb
     = (case cb i of
          Some r \<Rightarrow> (Request (drive_call P siteId token) # fst r, snd r)
        | None \<Rightarrow> ([Request (drive_call P siteId token)],
                   Inl (InvalidJSON (case net w (drive_call P siteId token) of
                                       Response res \<Rightarrow> body res | NetError e \<Rightarrow> []))))"
  unfolding getDriveId_def drive_call_def
  by (subst makeRequest_resolved [where k = cb and i = i]) (auto split: json.splits)

lemma auth_stdout_no_creds:
  "load_credentials w = Inl e \<Longrightarrow> auth_stdout P w = ([], Inl e)"
  by (simp add: auth_stdout_def sharepoint_auth_def exit1_def)

lemma auth_stdout_no_token:
  "load_credentials w = Inr c \<Longrightarrow> token_response P (net w (token_call P c)) = Inl e \<Longrightarrow>
   auth_stdout P w = ([Request (token_call P c)], Inl e)"
  by (simp add: auth_stdout_def sharepoint_auth_def acquire_def emit_def)

lemma auth_stdout_token:
  "load_credentials w = Inr c \<Longrightarrow> token_response P (net w (token_call P c)) = Inr v \<Longrightarrow>
   auth_stdout P w = ([Request (token_call P c)], Inr (console_log P v))"
  by (simp add: auth_stdout_def sharepoint_auth_def acquire_def emit_def)

lemma pipeline_token_None:
  "load_credentials w = Inr c \<Longrightarrow> token_response P (net w (token_call P c)) = Inl e \<Longrightarrow>
   pipeline_token P w = None"
  by (simp add: pipeline_token_def token_text_def auth_result)

lemma pipeline_token_Some:
  "load_credentials w = Inr c \<Longrightarrow> token_response P (net w (token_call P c)) = Inr v \<Longrightarrow>
   pipeline_token P w = Some (stdout_trimmed (console_log P v))"
  by (simp add: pipeline_token_def token_text_def auth_result)

lemma pipeline_auth_failed:
  "auth_stdout P w = (evs, Inl e) \<Longrightarrow>
   pipeline P w siteName op = (evs, Inl (Failed_to_get_access_token e))"
  by (simp add: pipeline_def execSync_def)

lemma pipeline_tenant_failed:
  "auth_stdout P w = (evs, Inr t0) \<Longrightarrow> snd (get_tenant w) = Inl e \<Longrightarrow>
   pipeline P w siteName op = (evs, Inl (Failed_to_get_tenant e))"
  by (simp add: pipeline_def execSync_def get_tenant_events)

lemma pipeline_resolving:
  "auth_stdout P w = (evs, Inr t0) \<Longrightarrow> snd (get_tenant w) = Inr out \<Longrightarrow>
   pipeline P w siteName op =
     (evs @ fst (getSiteId P w (stdout_trimmed out @ ''.sharepoint.com:/sites/'' @ siteName)
                   (stdout_trimmed t0)
                   (\<lambda>actualSiteId. Some (getDriveId P w actualSiteId (stdout_trimmed t0)
                      (\<lambda>driveId. op driveId (stdout_trimmed t0))))),
      snd (getSiteId P w (stdout_trimmed out @ ''.sharepoint.com:/sites/'' @ siteName)
                   (stdout_trimmed t0)
                   (\<lambda>actualSiteId. Some (getDriveId P w actualSiteId (stdout_trimmed t0)
                      (\<lambda>driveId. op driveId (stdout_trimmed t0))))))"
  by (simp add: pipeline_def execSync_def get_tenant_events Let_def)

text \<open>Every run of the shared lines ends at one of seven places.\<close>

lemma pipeline_stages:
  obtains
    (no_creds) e where
      "load_credentials w = Inl e"
      "pipeline P w siteName op = ([], Inl (Failed_to_get_access_token e))"
  | (no_token) c e where
      "load_credentials w = Inr c" "pipeline_token P w = None"
      "pipeline P w siteName op = ([Request (token_call P c)], Inl e)"
  | (no_tenant) c token e where
      "load_credentials w = Inr c" "pipeline_token P w = Some token" "pipeline_tenant w = None"
      "pipeline P w siteName op = ([Request (token_call P c)], Inl e)"
  | (no_site) c token tenant e where
      "load_credentials w = Inr c" "pipeline_token P w = Some token"
      "pipeline_tenant w = Some tenant"
      "resolved_id P (net w (site_call tenant siteName token)) = None"
      "pipeline P w siteName op
         = ([Request (token_call P c), Request (site_call tenant siteName token)], Inl e)"
  | (no_drive) c token tenant siteId e where
      "load_credentials w = Inr c" "pipeline_token P w = Some token"
      "pipeline_tenant w = Some tenant"
      "resolved_id P (net w (site_call tenant siteName token)) = Some siteId"
      "resolved_id P (net w (drive_call P siteId token)) = None"
      "pipeline P w siteName op
         = ([Request (token_call P c), Request (site_call tenant siteName token),
             Request (drive_call P siteId token)], Inl e)"
  | (threw) c token tenant siteId driveId e where
      "load_credentials w = Inr c" "resolves P w siteName token tenant siteId driveId"
      "op driveId token = None"
      "pipeline P w siteName op
         = ([Request (token_call P c), Request (site_call tenant siteName token),
             Request (drive_call P siteId token)], Inl e)"
  | (reached) c token tenant siteId driveId r where
      "load_credentials w = Inr c" "resolves P w siteName token tenant siteId driveId"
      "op driveId token = Some r"
      "pipeline P w siteName op
         = (Request (token_call P c) # Request (site_call tenant siteName token)
              # Request (drive_call P siteId token) # fst r, snd r)"
proof (cases "load_credentials w")
  case (Inl e)
  then show ?thesis
    using no_creds [of e] by (simp add: pipeline_auth_failed [OF auth_stdout_no_creds])
next
  case (Inr c)
  show ?thesis
  proof (cases "token_response P (net w (token_call P c))")
    case (Inl e)
    with Inr show ?thesis
      using no_token [of c "Failed_to_get_access_token e"]
      by (simp add: pipeline_auth_failed [OF auth_stdout_no_token] pipeline_token_None)
  next
    case v: (Inr v)
    define token where "token = stdout_trimmed (console_log P v)"
    have tok: "pipeline_token P w = Some token"
      using Inr v by (simp add: token_def pipeline_token_Some)
    have au: "auth_stdout P w = ([Request (token_call P c)], Inr (console_log P v))"
      using Inr v by (rule auth_stdout_token)
    show ?thesis
    proof (cases "snd (get_tenant w)")
      case (Inl e)
      then have "pipeline_tenant w = None" by (simp add: pipeline_tenant_def)
      with Inr tok Inl show ?thesis
        using no_tenant [of c token "Failed_to_get_tenant e"]
        by (simp add: pipeline_tenant_failed [OF au])
    next
      case out: (Inr out)
      define tenant where "tenant = stdout_trimmed out"
      have ten: "pipeline_tenant w = Some tenant"
        using out by (simp add: pipeline_tenant_def tenant_def)
      let ?k = "\<lambda>actualSiteId. Some (getDriveId P w actualSiteId token
                      (\<lambda>driveId. op driveId token))"
      have p: "pipeline P w siteName op =
          (Request (token_call P c)
             # fst (getSiteId P w (tenant @ ''.sharepoint.com:/sites/'' @ siteName) token ?k),
           snd (getSiteId P w (tenant @ ''.sharepoint.com:/sites/'' @ siteName) token ?k))"
        by (simp add: pipeline_resolving [OF au out] token_def tenant_def)
      show ?thesis
      proof (cases "resolved_id P (net w (site_call tenant siteName token))")
        case None
        from getSiteId_site_unresolved [OF None, where cb = ?k]
        obtain e where "getSiteId P w (tenant @ ''.sharepoint.com:/sites/'' @ siteName) token ?k
            = ([Request (site_call tenant siteName token)], Inl e)"
          by blast
        with p have "pipeline P w siteName op
            = ([Request (token_call P c), Request (site_call tenant siteName token)], Inl e)"
          by simp
        with Inr tok ten None show ?thesis by (rule no_site)
      next
        case sid: (Some siteId)
        let ?d = "getDriveId P w siteId token (\<lambda>driveId. op driveId token)"
        have "getSiteId P w (tenant @ ''.sharepoint.com:/sites/'' @ siteName) token ?k
            = (Request (site_call tenant siteName token) # fst ?d, snd ?d)"
          by (rule getSiteId_site_resolved [OF sid]) (rule refl)
        with p have p2: "pipeline P w siteName op
            = (Request (token_call P c) # Request (site_call tenant siteName token) # fst ?d,
               snd ?d)"
          by simp
        show ?thesis
        proof (cases "resolved_id P (net w (drive_call P siteId token))")
          case None
          with getDriveId_unresolved [of P w siteId token "\<lambda>driveId. op driveId token"]
          obtain e where "?d = ([Request (drive_call P siteId token)], Inl e)"
            by auto
          with p2 have "pipeline P w siteName op
            = ([Request (token_call P c), Request (site_call tenant siteName token),
                Request (drive_call P siteId token)], Inl e)"
            by simp
          with Inr tok ten sid None show ?thesis by (rule no_drive)
        next
          case did: (Some driveId)
          have res: "resolves P w siteName token tenant siteId driveId"
            using tok ten sid did by (simp add: resolves_def)
          note d = getDriveId_resolved [OF did, of "\<lambda>driveId. op driveId token"]
          show ?thesis
          proof (cases "op driveId token")
            case None
            with d p2 have "\<exists>e. pipeline P w siteName op
              = ([Request (token_call P c), Request (site_call tenant siteName token),
                  Request (drive_call P siteId token)], Inl e)"
              by simp
            then obtain e where "pipeline P w siteName op
              = ([Request (token_call P c), Request (site_call tenant siteName token),
                  Request (drive_call P siteId token)], Inl e)" ..
            with Inr res None show ?thesis by (rule threw)
          next
            case (Some r)
            with d p2 have "pipeline P w siteName op
              = (Request (token_call P c) # Request (site_call tenant siteName token)
                   # Request (drive_call P siteId token) # fst r, snd r)"
              by simp
            with Inr res Some show ?thesis by (rule reached)
          qed
        qed
      qed
    qed
  qed
qed

lemma authorization_makeRequest_call:
  "authorization (makeRequest_call h p token) = Some (HStr (''Bearer '' @ token))"
  by (simp add: authorization_def makeRequest_call_def)

lemma authorization_token_call: "authorization (token_call P c) = None"
  by (simp add: authorization_def token_call_def Let_def)

lemma authorization_site_call:
  "authorization (site_call tenant siteName token) = Some (HStr (''Bearer '' @ token))"
  unfolding site_call_def by (rule authorization_makeRequest_call)

lemma authorization_drive_call:
  "authorization (drive_call P siteId token) = Some (HStr (''Bearer '' @ token))"
  unfolding drive_call_def by (rule authorization_makeRequest_call)

lemmas order_simps =
  calls_simps authorization_token_call authorization_site_call authorization_drive_call

text \<open>
  C7. In every run of the lines that the three file scripts share, the network calls
  come in one order. The first call, if there is any, is the token request, which
  carries no \<open>Authorization\<close> header. A second call is made only when the
  authentication script has handed over a token, and it is the site request with that
  token as bearer. A third call is made only when the answer to the site request held
  a site id, and it is the drive request for that id, with the same token. Further
  calls are made only when the answer to the drive request held a drive id, and they
  are the calls of the operation on that drive.
\<close>

theorem resolution_strictly_ordered:
  assumes "cs = calls (fst (pipeline P w siteName op))"
  shows
  "(cs = [] \<or> (\<exists>c. load_credentials w = Inr c \<and> cs ! 0 = token_call P c
        \<and> authorization (cs ! 0) = None))
   \<and> (1 < length cs \<longrightarrow>
        (\<exists>token tenant. pipeline_token P w = Some token \<and> pipeline_tenant w = Some tenant
           \<and> cs ! 1 = site_call tenant siteName token
           \<and> authorization (cs ! 1) = Some (HStr (''Bearer '' @ token))))
   \<and> (2 < length cs \<longrightarrow>
        (\<exists>token siteId. pipeline_token P w = Some token
           \<and> resolved_id P (net w (cs ! 1)) = Some siteId
           \<and> cs ! 2 = drive_call P siteId token
           \<and> authorization (cs ! 2) = Some (HStr (''Bearer '' @ token))))
   \<and> (3 < length cs \<longrightarrow>
        (\<exists>token driveId r. pipeline_token P w = Some token
           \<and> resolved_id P (net w (cs ! 2)) = Some driveId
           \<and> op driveId token = Some r \<and> drop 3 cs = calls (fst r)))"
proof (cases rule: pipeline_stages [of w P siteName op])
  case (no_creds e)
  with assms show ?thesis by (simp add: order_simps)
next
  case (no_token c e)
  with assms show ?thesis by (simp add: order_simps)
next
  case (no_tenant c token e)
  with assms show ?thesis by (simp add: order_simps)
next
  case (no_site c token tenant e)
  with assms show ?thesis
    by (simp add: order_simps)
next
  case (no_drive c token tenant siteId e)
  with assms show ?thesis
    by (simp add: order_simps)
next
  case (threw c token tenant siteId driveId e)
  with assms show ?thesis
    by (simp add: order_simps resolves_def)
next
  case (reached c token tenant siteId driveId r)
  with assms show ?thesis
    by (cases r) (simp add: order_simps resolves_def)
qed



lemma demo_world_load: "load_credentials (demo_world t g) = Inr demo_creds"
  by (simp add: load_credentials_def demo_world_def demo_envPath_def demo_env_def demo_creds_def
        env_simps)

lemma demo_world_tenant: "get_tenant (demo_world t g) = ([], Inr ''contoso'')"
  by (simp add: get_tenant_def demo_world_def demo_envPath_def demo_env_def finish_def env_simps)

lemma demo_world_token_call:
  "net (demo_world t g) (token_call demo_platform demo_creds) = Response token_ok"
  by (simp add: demo_world_def demo_net_def token_call_def Let_def)

lemma demo_token_response:
  "token_response demo_platform (Response token_ok) = Inr (Some (JStr ''tok-1''))"
  by (simp add: token_response_def token_ok_def demo_platform_def demo_parse_def)

lemma demo_pipeline_token: "pipeline_token demo_platform (demo_world t g) = Some ''tok-1''"
  by (simp add: pipeline_token_Some [OF demo_world_load] demo_world_token_call
        demo_token_response console_log_def stdout_trimmed_def trim_examples)

lemma demo_pipeline_tenant: "pipeline_tenant (demo_world t g) = Some ''contoso''"
  by (simp add: pipeline_tenant_def demo_world_tenant stdout_trimmed_def trim_examples)

lemma demo_site:
  "resolved_id demo_platform (net (demo_world t g) (site_call ''contoso'' ''TeamSite'' ''tok-1''))
     = Some (JStr ''site-1'')"
  by (simp add: demo_world_def demo_net_def site_call_def makeRequest_call_def graph_hostname_def
        resolved_id_def site_ok_def demo_platform_def demo_parse_def)

lemma demo_drive:
  "resolved_id demo_platform
     (net (demo_world t g) (drive_call demo_platform (JStr ''site-1'') ''tok-1''))
     = Some (JStr ''drive-1'')"
  by (simp add: demo_world_def demo_net_def drive_call_def makeRequest_call_def graph_hostname_def
        template_def resolved_id_def drive_ok_def demo_platform_def demo_parse_def)

lemma demo_resolves:
  "resolves demo_platform (demo_world t g) ''TeamSite'' ''tok-1'' ''contoso''
     (JStr ''site-1'') (JStr ''drive-1'')"
  by (simp add: resolves_def demo_pipeline_token demo_pipeline_tenant demo_site demo_drive)

lemma resolves_unique:
  "resolves P w siteName token tenant siteId driveId \<Longrightarrow>
   resolves P w siteName token' tenant' siteId' driveId' \<Longrightarrow>
   token' = token \<and> tenant' = tenant \<and> siteId' = siteId \<and> driveId' = driveId"
  by (auto simp add: resolves_def)

lemma pipeline_reached:
  assumes "load_credentials w = Inr c"
    and "resolves P w siteName token tenant siteId driveId"
    and "op driveId token = Some r"
  shows "pipeline P w siteName op
           = (Request (token_call P c) # Request (site_call tenant siteName token)
                # Request (drive_call P siteId token) # fst r, snd r)"
proof (cases rule: pipeline_stages [of w P siteName op])
  case (reached c' token' tenant' siteId' driveId' r')
  from resolves_unique [OF assms(2) reached(2)] reached assms show ?thesis by simp
next
  case (threw c' token' tenant' siteId' driveId' e)
  from resolves_unique [OF assms(2) threw(2)] threw assms show ?thesis by simp
qed (use assms in \<open>simp_all add: resolves_def\<close>)

subsection \<open>Upload\<close>

lemma is_put_simps:
  "\<not> is_put (token_call P c)"
  "\<not> is_put (site_call tenant siteName token)"
  "\<not> is_put (drive_call P siteId token)"
  "is_put (put_call P driveId remotePath token fileContent)"
  by (simp_all add: is_put_def call_method_def token_call_def site_call_def drive_call_def
        makeRequest_call_def put_call_def Let_def)

lemma upload_script_large:
  "files w localFile = Some content \<Longrightarrow> 4194304 \<le> length content \<Longrightarrow>
   upload_script P w (siteName # localFile # remotePath # rest)
     = pipeline P w siteName (\<lambda>driveId token. Some (exit1 NotImplemented))"
  by (simp add: upload_script_def uploadLargeFile_def)


text \<open>
  C1, as amended. For a local file of at least 4,194,304 bytes, Upload issues no PUT
  and never succeeds. When the token, the site and the drive have been resolved, it
  fails with NotImplemented, after exactly the token request and the two resolver
  requests.
\<close>

theorem upload_large_no_put_NotImplemented:
  assumes "files w localFile = Some content" and "4194304 \<le> length content"
  shows
  "filter is_put (calls (fst (upload_script P w (siteName # localFile # remotePath # rest)))) = []
   \<and> (\<exists>e. snd (upload_script P w (siteName # localFile # remotePath # rest)) = Inl e)
   \<and> (load_credentials w = Inr c \<and> resolves P w siteName token tenant siteId driveId
      \<longrightarrow> upload_script P w (siteName # localFile # remotePath # rest)
            = ([Request (token_call P c), Request (site_call tenant siteName token),
                Request (drive_call P siteId token)],
               Inl NotImplemented))"
proof -
  let ?op = "\<lambda>driveId token. Some (exit1 NotImplemented :: uploaded run)"
  have u: "upload_script P w (siteName # localFile # remotePath # rest) = pipeline P w siteName ?op"
    using assms by (rule upload_script_large)
  have r: "load_credentials w = Inr c \<and> resolves P w siteName token tenant siteId driveId
      \<longrightarrow> pipeline P w siteName ?op
            = ([Request (token_call P c), Request (site_call tenant siteName token),
                Request (drive_call P siteId token)],
               Inl NotImplemented)"
    by (auto simp add: pipeline_reached [where r = "exit1 NotImplemented"] exit1_def)
  have "filter is_put (calls (fst (pipeline P w siteName ?op))) = []
        \<and> (\<exists>e. snd (pipeline P w siteName ?op) = Inl e)"
    by (cases rule: pipeline_stages [of w P siteName ?op])
       (auto simp add: calls_simps is_put_simps exit1_def)
  with u r show ?thesis by simp
qed


lemma upload_world_big:
  "files upload_world ''./big.bin'' = Some (replicate 4194304 (CHR ''x''))"
  by (simp add: upload_world_def demo_world_def demo_envPath_def)


lemma upload_world_load: "load_credentials upload_world = Inr demo_creds"
  unfolding upload_world_def by (rule demo_world_load)

lemma upload_world_resolves:
  "resolves demo_platform upload_world ''TeamSite'' ''tok-1'' ''contoso''
     (JStr ''site-1'') (JStr ''drive-1'')"
  unfolding upload_world_def by (rule demo_resolves)



theorem upload_large_no_put_NotImplemented_witness:
  "files upload_world ''./big.bin'' = Some (replicate 4194304 (CHR ''x''))
   \<and> 4194304 \<le> length (replicate 4194304 (CHR ''x''))
   \<and> load_credentials upload_world = Inr demo_creds
   \<and> resolves demo_platform upload_world ''TeamSite'' ''tok-1'' ''contoso''
        (JStr ''site-1'') (JStr ''drive-1'')
   \<and> filter is_put
        (calls (fst (upload_script demo_platform upload_world
                       [''TeamSite'', ''./big.bin'', ''big.bin''])))
       = []
   \<and> upload_script demo_platform upload_world [''TeamSite'', ''./big.bin'', ''big.bin'']
       = ([Request (token_call demo_platform demo_creds),
           Request (site_call ''contoso'' ''TeamSite'' ''tok-1''),
           Request (drive_call demo_platform (JStr ''site-1'') ''tok-1'')],
          Inl NotImplemented)"
proof -
  have l: "4194304 \<le> length (replicate 4194304 (CHR ''x''))" by simp
  from upload_large_no_put_NotImplemented
         [OF upload_world_big l, where P = demo_platform and siteName = "''TeamSite''"
            and remotePath = "''big.bin''" and rest = "[]" and c = demo_creds
            and token = "''tok-1''" and tenant = "''contoso''" and siteId = "JStr ''site-1''"
            and driveId = "JStr ''drive-1''"]
       upload_world_big l upload_world_load upload_world_resolves
  show ?thesis by blast
qed

text \<open>
  As the specification words it, no network call is made at all. The size is tested
  in the innermost callback: with a file of 4,194,304 bytes, the token request, the
  site request and the drive request have been made when the script stops.
\<close>

theorem upload_large_network_calls_counterexample:
  "4194304 \<le> length (the (files upload_world ''./big.bin''))
   \<and> calls (fst (upload_script demo_platform upload_world
                    [''TeamSite'', ''./big.bin'', ''big.bin'']))
       = [token_call demo_platform demo_creds,
          site_call ''contoso'' ''TeamSite'' ''tok-1'',
          drive_call demo_platform (JStr ''site-1'') ''tok-1'']
   \<and> calls (fst (upload_script demo_platform upload_world
                    [''TeamSite'', ''./big.bin'', ''big.bin''])) \<noteq> []"
proof -
  have l: "4194304 \<le> length (replicate 4194304 (CHR ''x''))" by simp
  have "upload_script demo_platform upload_world [''TeamSite'', ''./big.bin'', ''big.bin'']
       = ([Request (token_call demo_platform demo_creds),
           Request (site_call ''contoso'' ''TeamSite'' ''tok-1''),
           Request (drive_call demo_platform (JStr ''site-1'') ''tok-1'')],
          Inl NotImplemented)"
    by (simp add: upload_script_large [OF upload_world_big l]
          pipeline_reached [OF upload_world_load upload_world_resolves,
            where r = "exit1 NotImplemented"] exit1_def)
  then show ?thesis by (simp add: upload_world_big calls_simps)
qed




subsection \<open>List\<close>

lemma map_items_Some:
  "JNull \<notin> set items \<Longrightarrow>
   \<exists>fs. map_items items = Some fs \<and> length fs = length items
        \<and> (\<forall>i<length items. file_entry (items ! i) = Some (fs ! i))"
proof (induction items)
  case Nil
  then show ?case by simp
next
  case (Cons item items)
  then obtain fs where fs: "map_items items = Some fs" "length fs = length items"
      "\<forall>i<length items. file_entry (items ! i) = Some (fs ! i)"
    by auto
  from Cons.prems have "item \<noteq> JNull" by auto
  then obtain e where e: "file_entry item = Some e"
    by (cases item) (simp_all add: file_entry_def)
  have "\<forall>i<length (item # items). file_entry ((item # items) ! i) = Some ((e # fs) ! i)"
    using fs(3) e by (auto simp add: nth_Cons split: nat.splits)
  with fs e show ?case by simp
qed

lemma file_entry_Some:
  "file_entry item = Some e \<Longrightarrow>
   e = \<lparr>e_name = get item ''name'',
         e_size = get item ''size'',
         e_webUrl = get item ''webUrl'',
         e_downloadUrl = get item ''@microsoft.graph.downloadUrl'',
         e_lastModified = get item ''lastModifiedDateTime'',
         e_isFolder = truthy (get item ''folder''),
         e_type = (if truthy (get item ''folder'') then JStr ''folder''
                   else if truthy (mimeType item) then the (mimeType item)
                   else JStr ''file'')\<rparr>"
  by (cases item) (auto simp add: file_entry_def)

lemma file_entry_fields:
  assumes "file_entry item = Some e"
  shows "e_isFolder e = truthy (get item ''folder'')"
    and "e_type e = (if truthy (get item ''folder'') then JStr ''folder''
                     else if truthy (mimeType item) then the (mimeType item)
                     else JStr ''file'')"
    and "e_name e = get item ''name''"
    and "e_size e = get item ''size''"
    and "e_webUrl e = get item ''webUrl''"
    and "e_downloadUrl e = get item ''@microsoft.graph.downloadUrl''"
    and "e_lastModified e = get item ''lastModifiedDateTime''"
  by (simp_all add: file_entry_Some [OF assms])

lemma list_callback_array:
  assumes "get data ''value'' = Some (JArr items)" and "map_items items = Some fs"
  shows "list_callback data = Some (finish fs)"
proof -
  from assms(1) have "data \<noteq> JNull" by auto
  with assms show ?thesis
    by (cases data) (simp_all add: list_callback_def)
qed

text \<open>
  C6. When the answer to the children request parses to a value whose \<open>value\<close> member
  is an array of items, none of them \<open>null\<close>, List succeeds with one entry for each
  item, in the order of the array. The entry of an item is a folder exactly when the
  \<open>folder\<close> member of the item is truthy; its type is \<open>folder\<close> then, otherwise the
  mime type of the item when it has one, otherwise \<open>file\<close>; the other fields are the
  members of the item.
\<close>

theorem list_maps_items_in_order:
  assumes "net w (makeRequest_call graph_hostname (children_path P driveId folderPath) token)
             = Response res"
    and "JSON_parse P (body res) = Some data"
    and "get data ''value'' = Some (JArr items)"
    and "JNull \<notin> set items"
  shows "\<exists>fs. snd (listFiles P w driveId folderPath token) = Inr fs
           \<and> length fs = length items
           \<and> (\<forall>i<length items.
                 e_isFolder (fs ! i) = truthy (get (items ! i) ''folder'')
               \<and> e_type (fs ! i)
                   = (if truthy (get (items ! i) ''folder'') then JStr ''folder''
                      else if truthy (mimeType (items ! i)) then the (mimeType (items ! i))
                      else JStr ''file'')
               \<and> e_name (fs ! i) = get (items ! i) ''name''
               \<and> e_size (fs ! i) = get (items ! i) ''size''
               \<and> e_webUrl (fs ! i) = get (items ! i) ''webUrl''
               \<and> e_downloadUrl (fs ! i) = get (items ! i) ''@microsoft.graph.downloadUrl''
               \<and> e_lastModified (fs ! i) = get (items ! i) ''lastModifiedDateTime'')"
proof -
  from map_items_Some [OF assms(4)] obtain fs where fs: "map_items items = Some fs"
      "length fs = length items" "\<forall>i<length items. file_entry (items ! i) = Some (fs ! i)"
    by blast
  from assms(1,2) list_callback_array [OF assms(3) fs(1)]
  have "snd (listFiles P w driveId folderPath token) = Inr fs"
    by (simp add: listFiles_def makeRequest_def emit_def finish_def)
  with fs(2,3) show ?thesis
    by (auto simp add: file_entry_fields)
qed

lemma list_world_children:
  "net list_world
     (makeRequest_call graph_hostname (children_path demo_platform (JStr ''drive-1'') []) ''tok-1'')
     = Response children_ok"
  by (simp add: list_world_def demo_world_def demo_net_def makeRequest_call_def
        graph_hostname_def children_path_def template_def demo_platform_def)

lemma children_ok_parse:
  "JSON_parse demo_platform (body children_ok)
     = Some (JObj [(''value'', JArr
         [JObj [(''name'', JStr ''a.txt''), (''size'', JNum 3),
                (''file'', JObj [(''mimeType'', JStr ''text/plain'')])],
          JObj [(''name'', JStr ''docs''), (''folder'', JObj [(''childCount'', JNum 0)])]])])"
  by (simp add: children_ok_def demo_platform_def demo_parse_def)

theorem list_maps_items_in_order_witness:
  "net list_world
     (makeRequest_call graph_hostname (children_path demo_platform (JStr ''drive-1'') []) ''tok-1'')
     = Response children_ok
   \<and> JSON_parse demo_platform (body children_ok)
     = Some (JObj [(''value'', JArr
         [JObj [(''name'', JStr ''a.txt''), (''size'', JNum 3),
                (''file'', JObj [(''mimeType'', JStr ''text/plain'')])],
          JObj [(''name'', JStr ''docs''), (''folder'', JObj [(''childCount'', JNum 0)])]])])
   \<and> JNull \<notin> set
         [JObj [(''name'', JStr ''a.txt''), (''size'', JNum 3),
                (''file'', JObj [(''mimeType'', JStr ''text/plain'')])],
          JObj [(''name'', JStr ''docs''), (''folder'', JObj [(''childCount'', JNum 0)])]]
   \<and> snd (listFiles demo_platform list_world (JStr ''drive-1'') [] ''tok-1'')
     = Inr [\<lparr>e_name = Some (JStr ''a.txt''), e_size = Some (JNum 3), e_webUrl = None,
             e_downloadUrl = None, e_lastModified = None, e_isFolder = False,
             e_type = JStr ''text/plain''\<rparr>,
            \<lparr>e_name = Some (JStr ''docs''), e_size = None, e_webUrl = None,
             e_downloadUrl = None, e_lastModified = None, e_isFolder = True,
             e_type = JStr ''folder''\<rparr>]"
proof -
  let ?items = "[JObj [(''name'', JStr ''a.txt''), (''size'', JNum 3),
                (''file'', JObj [(''mimeType'', JStr ''text/plain'')])],
          JObj [(''name'', JStr ''docs''), (''folder'', JObj [(''childCount'', JNum 0)])]]"
  have v: "get (JObj [(''value'', JArr ?items)]) ''value'' = Some (JArr ?items)" by simp
  have n: "JNull \<notin> set ?items" by simp
  have r: "snd (listFiles demo_platform list_world (JStr ''drive-1'') [] ''tok-1'')
     = Inr [\<lparr>e_name = Some (JStr ''a.txt''), e_size = Some (JNum 3), e_webUrl = None,
             e_downloadUrl = None, e_lastModified = None, e_isFolder = False,
             e_type = JStr ''text/plain''\<rparr>,
            \<lparr>e_name = Some (JStr ''docs''), e_size = None, e_webUrl = None,
             e_downloadUrl = None, e_lastModified = None, e_isFolder = True,
             e_type = JStr ''folder''\<rparr>]"
    by (simp add: listFiles_def makeRequest_def list_world_children children_ok_parse emit_def
          list_callback_def file_entry_def mimeType_def finish_def)
  from list_maps_items_in_order [OF list_world_children children_ok_parse v n]
       list_world_children children_ok_parse n r
  show ?thesis by simp
qed

subsection \<open>The order of resolution on the list example\<close>

lemma list_world_load: "load_credentials list_world = Inr demo_creds"
  unfolding list_world_def by (rule demo_world_load)

lemma list_world_resolves:
  "resolves demo_platform list_world ''TeamSite'' ''tok-1'' ''contoso''
     (JStr ''site-1'') (JStr ''drive-1'')"
  unfolding list_world_def by (rule demo_resolves)

lemma list_world_calls:
  "calls (fst (pipeline demo_platform list_world ''TeamSite'' list_op))
     = [token_call demo_platform demo_creds,
        site_call ''contoso'' ''TeamSite'' ''tok-1'',
        drive_call demo_platform (JStr ''site-1'') ''tok-1'',
        makeRequest_call graph_hostname ''/v1.0/drives/drive-1/root/children'' ''tok-1'']"
proof -
  have c: "children_path demo_platform (JStr ''drive-1'') [] = ''/v1.0/drives/drive-1/root/children''"
    by (simp add: children_path_def template_def)
  have "fst (listFiles demo_platform list_world (JStr ''drive-1'') [] ''tok-1'')
      = [Request (makeRequest_call graph_hostname
                    (children_path demo_platform (JStr ''drive-1'') []) ''tok-1'')]"
    by (simp add: listFiles_def makeRequest_def list_world_children children_ok_parse emit_def
          list_callback_def file_entry_def mimeType_def finish_def)
  then show ?thesis
    by (simp add: pipeline_reached [OF list_world_load list_world_resolves,
            where op = list_op
              and r = "listFiles demo_platform list_world (JStr ''drive-1'') [] ''tok-1''"]
          list_op_def calls_simps c)
qed

theorem resolution_strictly_ordered_witness:
  "calls (fst (pipeline demo_platform list_world ''TeamSite'' list_op))
     = [token_call demo_platform demo_creds,
        site_call ''contoso'' ''TeamSite'' ''tok-1'',
        drive_call demo_platform (JStr ''site-1'') ''tok-1'',
        makeRequest_call graph_hostname ''/v1.0/drives/drive-1/root/children'' ''tok-1'']
   \<and> 3 < length (calls (fst (pipeline demo_platform list_world ''TeamSite'' list_op)))
   \<and> load_credentials list_world = Inr demo_creds
   \<and> pipeline_token demo_platform list_world = Some ''tok-1''
   \<and> pipeline_tenant list_world = Some ''contoso''
   \<and> resolved_id demo_platform (net list_world (site_call ''contoso'' ''TeamSite'' ''tok-1''))
       = Some (JStr ''site-1'')
   \<and> resolved_id demo_platform
        (net list_world (drive_call demo_platform (JStr ''site-1'') ''tok-1''))
       = Some (JStr ''drive-1'')
   \<and> authorization (token_call demo_platform demo_creds) = None
   \<and> authorization (site_call ''contoso'' ''TeamSite'' ''tok-1'') = Some (HStr ''Bearer tok-1'')
   \<and> authorization (drive_call demo_platform (JStr ''site-1'') ''tok-1'')
       = Some (HStr ''Bearer tok-1'')"
proof -
  have len: "3 < length (calls (fst (pipeline demo_platform list_world ''TeamSite'' list_op)))"
    by (simp add: list_world_calls)
  from resolution_strictly_ordered
         [OF refl, of demo_platform list_world "''TeamSite''" list_op]
       len list_world_calls list_world_load list_world_resolves
  show ?thesis
    by (simp add: resolves_def order_simps)
qed

text \<open>Each file script runs the shared lines with its own operation.\<close>

lemma scripts_run_pipeline:
  "download_script P w (siteName # filePath # outputPath # rest)
     = pipeline P w siteName (\<lambda>driveId token. Some (downloadFile P w driveId filePath token
         (if outputPath = [] then ''./'' @ basename P filePath else outputPath)))"
  "download_script P w [siteName, filePath]
     = pipeline P w siteName (\<lambda>driveId token. Some (downloadFile P w driveId filePath token
         (''./'' @ basename P filePath)))"
  "list_script P w (siteName # folderPath # rest)
     = pipeline P w siteName (\<lambda>driveId token. Some (listFiles P w driveId folderPath token))"
  "list_script P w [siteName]
     = pipeline P w siteName (\<lambda>driveId token. Some (listFiles P w driveId [] token))"
  "files w localFile = Some content \<Longrightarrow>
   upload_script P w (siteName # localFile # remotePath # rest)
     = pipeline P w siteName (\<lambda>driveId token.
         if length content < 4 * 1024 * 1024
         then uploadSmallFile P w driveId remotePath localFile token
         else Some (uploadLargeFile driveId remotePath localFile token))"
  by (simp_all add: download_script_def list_script_def upload_script_def Let_def)

end
